theory Spec2Isabelle
  imports Complex_Main
begin

section \<open>GraphMaker: trainer edge index (train_async.py) and evaluator (eval_utils.py)\<close>

subsection \<open>Edge index of the trainer\<close>

text \<open>
  \<^verbatim>\<open>torch.triu_indices(row, col, offset)\<close> is a library function: it returns the row
  indices and the column indices of the entries \<open>(i, j)\<close> of a \<open>row \<times> col\<close> matrix with
  \<open>j - i \<ge> offset\<close>, ordered by row and then by column.
\<close>

definition triu_indices :: "nat \<Rightarrow> nat \<Rightarrow> int \<Rightarrow> nat list \<times> nat list" where
  "triu_indices row col offset =
     (let ps = concat (map (\<lambda>i. map (Pair i) (filter (\<lambda>j. int i + offset \<le> int j) [0..<col]))
                        [0..<row])
      in (map fst ps, map snd ps))"

text \<open>
  train_async.py, lines 49 to 52:
  \<^verbatim>\<open>
    dst, src = torch.triu_indices(N, N, offset=1, device=device)
    edge_index = torch.stack([dst, src], dim=1)
  \<close>
  Stacking two vectors of equal length along dimension 1 pairs them up entry by entry.
\<close>

definition edge_index :: "nat \<Rightarrow> (nat \<times> nat) list" where
  "edge_index N = (case triu_indices N N 1 of (dst, src) \<Rightarrow> zip dst src)"

text \<open>The order of the rows of the edge index: by first index, then by second index.\<close>

definition row_major_less :: "nat \<times> nat \<Rightarrow> nat \<times> nat \<Rightarrow> bool" where
  "row_major_less p q = (fst p < fst q \<or> (fst p = fst q \<and> snd p < snd q))"

subsection \<open>Errors, graphs, tensors and the random generator\<close>

text \<open>The exceptions that the modelled code raises.\<close>

datatype error =
    ValueError string
  | KeyError nat
  | IndexError
  | ZeroDivisionError

text \<open>
  A \<^verbatim>\<open>dgl.DGLGraph\<close>: the number of nodes, the directed edges \<open>(src, dst)\<close> in the order of
  their edge ids (parallel edges are allowed), and the boolean node data attached by the
  evaluator. Every endpoint of an edge of a DGL graph is a node of the graph.
\<close>

record dgl_graph =
  num_nodes :: nat
  edges :: "(nat \<times> nat) list"
  ndata :: "string \<rightharpoonup> bool list"

definition num_edges :: "dgl_graph \<Rightarrow> nat" where
  "num_edges g = length (edges g)"

definition wf_graph :: "dgl_graph \<Rightarrow> bool" where
  "wf_graph g = list_all (\<lambda>e. fst e < num_nodes g \<and> snd e < num_nodes g) (edges g)"

text \<open>
  A tensor of shape \<open>(|V|, C)\<close>: its last dimension \<open>size1\<close> (known also when there is no row)
  and its rows.
\<close>

record tensor2d =
  size1 :: nat
  rows :: "real list list"

definition wf_tensor2d :: "tensor2d \<Rightarrow> bool" where
  "wf_tensor2d Y = list_all (\<lambda>r. length r = size1 Y) (rows Y)"

text \<open>
  The global random generator of torch is not part of the repository. It is a parameter of the
  model: a type \<open>'g\<close> of generator states, \<open>randperm\<close> (\<^verbatim>\<open>torch.randperm(n)\<close>, which returns
  a list and advances the generator) and \<open>manual_seed\<close> (\<^verbatim>\<open>torch.manual_seed\<close>, which
  replaces the state). The state of the generator after an exception is not modelled.
\<close>

record 'g torch =
  randperm :: "'g \<Rightarrow> nat \<Rightarrow> nat list \<times> 'g"
  manual_seed :: "int \<Rightarrow> 'g"

text \<open>What torch documents of \<^verbatim>\<open>randperm(n)\<close>: a permutation of \<open>0, \<dots>, n - 1\<close>.\<close>

definition randperm_ok :: "('g, 'z) torch_scheme \<Rightarrow> bool" where
  "randperm_ok R = (\<forall>g n. distinct (fst (randperm R g n)) \<and> set (fst (randperm R g n)) = {0..<n})"

text \<open>Python's \<^verbatim>\<open>xs[start:end]\<close> for non-negative bounds.\<close>

definition py_slice :: "nat \<Rightarrow> nat \<Rightarrow> 'a list \<Rightarrow> 'a list" where
  "py_slice start end xs = take (end - start) (drop start xs)"

text \<open>
  \<^verbatim>\<open>mask[idx] = 1.\<close> for an index tensor \<open>idx\<close>: every listed position is set; an index
  outside the mask raises.
\<close>

definition index_fill :: "bool list \<Rightarrow> nat list \<Rightarrow> error + bool list" where
  "index_fill m idx =
     (if list_all (\<lambda>i. i < length m) idx then Inr (fold (\<lambda>i m. m[i := True]) idx m)
      else Inl IndexError)"

text \<open>A \<^verbatim>\<open>for\<close> loop whose body may raise: the first exception ends the loop.\<close>

fun for_range :: "('k \<Rightarrow> 's \<Rightarrow> error + 's) \<Rightarrow> 'k list \<Rightarrow> 's \<Rightarrow> error + 's" where
  "for_range body [] s = Inr s"
| "for_range body (k # ks) s =
     (case body k s of Inl e \<Rightarrow> Inl e | Inr s' \<Rightarrow> for_range body ks s')"

subsection \<open>Split masks (eval_utils.py, lines 99 to 226)\<close>

text \<open>\<^verbatim>\<open>(Y_one_hot[:, y] == 1.).nonzero().squeeze(-1)\<close>: the rows whose column \<open>y\<close> is 1.\<close>

definition nonzero_col :: "tensor2d \<Rightarrow> nat \<Rightarrow> nat list" where
  "nonzero_col Y y = filter (\<lambda>i. rows Y ! i ! y = 1) [0..<length (rows Y)]"

text \<open>The lookup tables of \<^verbatim>\<open>add_mask_cora\<close> and \<^verbatim>\<open>add_mask_citeseer\<close>.\<close>

definition cora_num_val_nodes :: "nat \<rightharpoonup> nat" where
  "cora_num_val_nodes = [0 \<mapsto> 61, 1 \<mapsto> 36, 2 \<mapsto> 78, 3 \<mapsto> 158, 4 \<mapsto> 81, 5 \<mapsto> 57, 6 \<mapsto> 29]"

definition cora_num_test_nodes :: "nat \<rightharpoonup> nat" where
  "cora_num_test_nodes = [0 \<mapsto> 130, 1 \<mapsto> 91, 2 \<mapsto> 144, 3 \<mapsto> 319, 4 \<mapsto> 149, 5 \<mapsto> 103, 6 \<mapsto> 64]"

definition citeseer_num_val_nodes :: "nat \<rightharpoonup> nat" where
  "citeseer_num_val_nodes = [0 \<mapsto> 29, 1 \<mapsto> 86, 2 \<mapsto> 116, 3 \<mapsto> 106, 4 \<mapsto> 94, 5 \<mapsto> 69]"

definition citeseer_num_test_nodes :: "nat \<rightharpoonup> nat" where
  "citeseer_num_test_nodes = [0 \<mapsto> 77, 1 \<mapsto> 182, 2 \<mapsto> 181, 3 \<mapsto> 231, 4 \<mapsto> 169, 5 \<mapsto> 160]"

text \<open>
  The state of the loops over the classes: the three masks and the generator. The body of the
  loop of \<^verbatim>\<open>add_mask_cora\<close> and of \<^verbatim>\<open>add_mask_citeseer\<close>, which differ in their two tables only:
  \<^verbatim>\<open>
    nodes_y = (Y_one_hot[:, y] == 1.).nonzero().squeeze(-1)
    nid_y = torch.randperm(len(nodes_y))
    nodes_y = nodes_y[nid_y]
    train_mask[nodes_y[:20]] = 1.
    start = 20
    end = start + num_val_nodes[y]
    val_mask[nodes_y[start: end]] = 1.
    start = end
    end = start + num_test_nodes[y]
    test_mask[nodes_y[start: end]] = 1.
  \<close>
  A class index that is not a key of a table raises \<^verbatim>\<open>KeyError\<close>.
\<close>

type_synonym 'g mask_state = "bool list \<times> bool list \<times> bool list \<times> 'g"

definition table_body ::
  "'g torch \<Rightarrow> tensor2d \<Rightarrow> (nat \<rightharpoonup> nat) \<Rightarrow> (nat \<rightharpoonup> nat) \<Rightarrow> nat \<Rightarrow> 'g mask_state
     \<Rightarrow> error + 'g mask_state" where
  "table_body R Y num_val_nodes num_test_nodes y st =
     (case st of (train_mask, val_mask, test_mask, rng) \<Rightarrow>
      (case randperm R rng (length (nonzero_col Y y)) of (nid_y, rng') \<Rightarrow>
       (let nodes_y = map ((!) (nonzero_col Y y)) nid_y in
        case index_fill train_mask (take 20 nodes_y) of Inl e \<Rightarrow> Inl e
        | Inr train_mask' \<Rightarrow>
        (case num_val_nodes y of None \<Rightarrow> Inl (KeyError y)
         | Some v \<Rightarrow>
         (case index_fill val_mask (py_slice 20 (20 + v) nodes_y) of Inl e \<Rightarrow> Inl e
          | Inr val_mask' \<Rightarrow>
          (case num_test_nodes y of None \<Rightarrow> Inl (KeyError y)
           | Some t \<Rightarrow>
           (case index_fill test_mask (py_slice (20 + v) (20 + v + t) nodes_y) of
              Inl e \<Rightarrow> Inl e
            | Inr test_mask' \<Rightarrow> Inr (train_mask', val_mask', test_mask', rng'))))))))"

text \<open>
  The body of the loop of \<^verbatim>\<open>add_mask_benchmark\<close>:
  \<^verbatim>\<open>
    train_mask[nodes_y[:20]] = 1.
    val_mask[nodes_y[20: 50]] = 1.
    test_mask[nodes_y[50:]] = 1.
  \<close>
\<close>

definition benchmark_body ::
  "'g torch \<Rightarrow> tensor2d \<Rightarrow> nat \<Rightarrow> 'g mask_state \<Rightarrow> error + 'g mask_state" where
  "benchmark_body R Y y st =
     (case st of (train_mask, val_mask, test_mask, rng) \<Rightarrow>
      (case randperm R rng (length (nonzero_col Y y)) of (nid_y, rng') \<Rightarrow>
       (let nodes_y = map ((!) (nonzero_col Y y)) nid_y in
        case index_fill train_mask (take 20 nodes_y) of Inl e \<Rightarrow> Inl e
        | Inr train_mask' \<Rightarrow>
        (case index_fill val_mask (py_slice 20 50 nodes_y) of Inl e \<Rightarrow> Inl e
         | Inr val_mask' \<Rightarrow>
         (case index_fill test_mask (drop 50 nodes_y) of Inl e \<Rightarrow> Inl e
          | Inr test_mask' \<Rightarrow> Inr (train_mask', val_mask', test_mask', rng'))))))"

text \<open>
  Around the loop, the three functions are the same: three masks of zeros, the loop over
  \<^verbatim>\<open>range(Y_one_hot.size(-1))\<close>, and the masks stored in \<^verbatim>\<open>dgl_g.ndata\<close>.
\<close>

definition store_masks ::
  "dgl_graph \<Rightarrow> (error + 'g mask_state) \<Rightarrow> error + dgl_graph \<times> 'g" where
  "store_masks dgl_g r =
     (case r of Inl e \<Rightarrow> Inl e
      | Inr (train_mask, val_mask, test_mask, rng) \<Rightarrow>
          Inr (dgl_g\<lparr>ndata := (ndata dgl_g)(''train_mask'' \<mapsto> train_mask,
                                             ''val_mask'' \<mapsto> val_mask,
                                             ''test_mask'' \<mapsto> test_mask)\<rparr>, rng))"

definition zero_masks :: "dgl_graph \<Rightarrow> 'g \<Rightarrow> 'g mask_state" where
  "zero_masks dgl_g rng =
     (replicate (num_nodes dgl_g) False, replicate (num_nodes dgl_g) False,
      replicate (num_nodes dgl_g) False, rng)"

definition add_mask_cora ::
  "'g torch \<Rightarrow> dgl_graph \<Rightarrow> tensor2d \<Rightarrow> 'g \<Rightarrow> error + dgl_graph \<times> 'g" where
  "add_mask_cora R dgl_g Y_one_hot rng =
     store_masks dgl_g
       (for_range (table_body R Y_one_hot cora_num_val_nodes cora_num_test_nodes)
          [0..<size1 Y_one_hot] (zero_masks dgl_g rng))"

definition add_mask_citeseer ::
  "'g torch \<Rightarrow> dgl_graph \<Rightarrow> tensor2d \<Rightarrow> 'g \<Rightarrow> error + dgl_graph \<times> 'g" where
  "add_mask_citeseer R dgl_g Y_one_hot rng =
     store_masks dgl_g
       (for_range (table_body R Y_one_hot citeseer_num_val_nodes citeseer_num_test_nodes)
          [0..<size1 Y_one_hot] (zero_masks dgl_g rng))"

definition add_mask_benchmark ::
  "'g torch \<Rightarrow> dgl_graph \<Rightarrow> tensor2d \<Rightarrow> 'g \<Rightarrow> error + dgl_graph \<times> 'g" where
  "add_mask_benchmark R dgl_g Y_one_hot rng =
     store_masks dgl_g
       (for_range (benchmark_body R Y_one_hot) [0..<size1 Y_one_hot] (zero_masks dgl_g rng))"

text \<open>The fields of an \<^verbatim>\<open>Evaluator\<close> that the modelled methods read.\<close>

record evaluator =
  data_name :: string
  edge_limit :: nat

definition add_mask ::
  "'g torch \<Rightarrow> evaluator \<Rightarrow> dgl_graph \<Rightarrow> tensor2d \<Rightarrow> 'g \<Rightarrow> error + dgl_graph \<times> 'g" where
  "add_mask R self dgl_g Y_one_hot rng =
     (if data_name self = ''cora'' then add_mask_cora R dgl_g Y_one_hot rng
      else if data_name self = ''citeseer'' then add_mask_citeseer R dgl_g Y_one_hot rng
      else if data_name self \<in> set [''amazon_photo'', ''amazon_computer'']
        then add_mask_benchmark R dgl_g Y_one_hot rng
      else Inl (ValueError (''Unexpected data name: '' @ data_name self)))"

subsection \<open>Class homophily (eval_utils.py, lines 10 to 61)\<close>

text \<open>
  A torch float, without rounding: a real number, an infinity or NaN. The operations are
  those of IEEE arithmetic on such values.
\<close>

datatype fval = Fin real | PInf | NInf | NaN

definition fdiv :: "real \<Rightarrow> real \<Rightarrow> fval" where
  "fdiv a b = (if b \<noteq> 0 then Fin (a / b) else if a = 0 then NaN else if 0 < a then PInf else NInf)"

fun fsub :: "fval \<Rightarrow> fval \<Rightarrow> fval" where
  "fsub (Fin a) (Fin b) = Fin (a - b)"
| "fsub NaN _ = NaN"
| "fsub _ NaN = NaN"
| "fsub PInf PInf = NaN"
| "fsub NInf NInf = NaN"
| "fsub PInf _ = PInf"
| "fsub NInf _ = NInf"
| "fsub (Fin a) PInf = NInf"
| "fsub (Fin a) NInf = PInf"

fun fadd :: "fval \<Rightarrow> fval \<Rightarrow> fval" where
  "fadd (Fin a) (Fin b) = Fin (a + b)"
| "fadd NaN _ = NaN"
| "fadd _ NaN = NaN"
| "fadd PInf NInf = NaN"
| "fadd NInf PInf = NaN"
| "fadd PInf _ = PInf"
| "fadd NInf _ = NInf"
| "fadd (Fin a) PInf = PInf"
| "fadd (Fin a) NInf = NInf"

text \<open>\<^verbatim>\<open>t > 0\<close>: a comparison with NaN is false.\<close>

fun fgt0 :: "fval \<Rightarrow> bool" where
  "fgt0 (Fin a) = (0 < a)"
| "fgt0 PInf = True"
| "fgt0 NInf = False"
| "fgt0 NaN = False"

text \<open>
  Python's builtin \<^verbatim>\<open>max(0, t)\<close> starts from its first argument and replaces it by a later
  argument only if that one compares greater: it is \<open>t\<close> if \<^verbatim>\<open>t > 0\<close> and \<open>0\<close> otherwise.
\<close>

definition py_max0 :: "fval \<Rightarrow> fval" where
  "py_max0 t = (if fgt0 t then t else Fin 0)"

text \<open>
  \<^verbatim>\<open>value.item() / (num_classes - 1)\<close>: the division of a Python float by a Python int,
  which raises \<^verbatim>\<open>ZeroDivisionError\<close> when the divisor is 0.
\<close>

definition py_truediv :: "fval \<Rightarrow> int \<Rightarrow> error + fval" where
  "py_truediv v d =
     (if d = 0 then Inl ZeroDivisionError
      else Inr (case v of
                  Fin a \<Rightarrow> Fin (a / real_of_int d)
                | PInf \<Rightarrow> (if 0 < d then PInf else NInf)
                | NInf \<Rightarrow> (if 0 < d then NInf else PInf)
                | NaN \<Rightarrow> NaN))"

text \<open>\<^verbatim>\<open>graph.in_degrees()\<close>: for each node, the number of edges that end in it.\<close>

definition in_degrees :: "dgl_graph \<Rightarrow> real list" where
  "in_degrees graph =
     map (\<lambda>v. real (length (filter (\<lambda>e. snd e = v) (edges graph)))) [0..<num_nodes graph]"

text \<open>\<^verbatim>\<open>(y[src] == y[dst]).float()\<close>, one entry for each edge.\<close>

definition same_class :: "dgl_graph \<Rightarrow> nat list \<Rightarrow> real list" where
  "same_class graph y = map (\<lambda>e. if y ! fst e = y ! snd e then 1 else 0) (edges graph)"

text \<open>
  \<^verbatim>\<open>graph.update_all(fn.copy_e(..), fn.sum(..))\<close>: each node receives the sum of the values
  of the edges that end in it (0 for a node without such an edge).
\<close>

definition update_all_sum :: "dgl_graph \<Rightarrow> real list \<Rightarrow> real list" where
  "update_all_sum graph m =
     map (\<lambda>v. sum_list (map snd (filter (\<lambda>p. snd (fst p) = v) (zip (edges graph) m))))
       [0..<num_nodes graph]"

text \<open>\<^verbatim>\<open>t[class_mask].sum()\<close>: the sum of the entries of \<open>t\<close> at which the mask is true.\<close>

definition masked_sum :: "bool list \<Rightarrow> real list \<Rightarrow> real" where
  "masked_sum class_mask t = sum_list (map snd (filter fst (zip class_mask t)))"

text \<open>
  The body of the loop over \<^verbatim>\<open>range(num_classes)\<close>:
  \<^verbatim>\<open>
    class_mask = y == k
    same_class_deg_k = graph.ndata["same_class_deg"][class_mask].sum()
    deg_k = deg[class_mask].sum()
    num_nodes_k = class_mask.sum()
    value += max(0, same_class_deg_k / deg_k - num_nodes_k / num_nodes)
  \<close>
\<close>

definition homophily_body ::
  "real list \<Rightarrow> real list \<Rightarrow> nat \<Rightarrow> nat list \<Rightarrow> nat \<Rightarrow> fval \<Rightarrow> fval" where
  "homophily_body same_class_deg deg n y k val =
     (let class_mask = map (\<lambda>l. l = k) y;
          same_class_deg_k = masked_sum class_mask same_class_deg;
          deg_k = masked_sum class_mask deg;
          num_nodes_k = real (length (filter id class_mask))
      in fadd val (py_max0 (fsub (fdiv same_class_deg_k deg_k) (fdiv num_nodes_k (real n)))))"

text \<open>
  The labels \<open>y\<close> are class indices, one for each node. \<^verbatim>\<open>y.max(dim=0)\<close> raises on an empty
  tensor.
\<close>

definition linkx_homophily :: "dgl_graph \<Rightarrow> nat list \<Rightarrow> error + fval" where
  "linkx_homophily graph y =
     (if y = [] then Inl IndexError
      else
        (let same_class_deg = update_all_sum graph (same_class graph y);
             deg = in_degrees graph;
             n = num_nodes graph;
             num_classes = Max (set y) + 1;
             val = fold (homophily_body same_class_deg deg n y) [0..<num_classes] (Fin 0)
         in py_truediv val (int num_classes - 1)))"

subsection \<open>Subgraph sampling and preprocessing (eval_utils.py, lines 228 to 279)\<close>

text \<open>
  \<^verbatim>\<open>torch.triu(dgl_g.adj().to_dense(), diagonal=1).nonzero()\<close>: the pairs \<open>(i, j)\<close> with
  \<open>i < j\<close> that are joined by an edge from \<open>i\<close> to \<open>j\<close>, ordered by row and then by column.
\<close>

definition triu_nonzero :: "dgl_graph \<Rightarrow> (nat \<times> nat) list" where
  "triu_nonzero dgl_g =
     concat (map (\<lambda>i. map (Pair i) (filter (\<lambda>j. i < j \<and> (i, j) \<in> set (edges dgl_g))
                                        [0..<num_nodes dgl_g]))
               [0..<num_nodes dgl_g])"

text \<open>
  \<^verbatim>\<open>dgl.to_bidirected\<close> is a library function: the result is a simple graph on the same
  nodes, without node data, that has an edge \<open>(u, v)\<close> exactly when the argument has an edge
  \<open>(u, v)\<close> or an edge \<open>(v, u)\<close>.
\<close>

definition to_bidirected :: "dgl_graph \<Rightarrow> dgl_graph" where
  "to_bidirected g =
     \<lparr>num_nodes = num_nodes g,
      edges = remdups (edges g @ map (\<lambda>e. (snd e, fst e)) (edges g)),
      ndata = Map.empty\<rparr>"

text \<open>
  \<^verbatim>\<open>
    edges = A_upper.nonzero()
    indices = torch.randperm(edges.size(0))[:self.edge_limit // 2]
    src, dst = edges[indices].T
    sub_g = dgl.graph((src, dst), num_nodes=dgl_g.num_nodes())
    sub_g = dgl.to_bidirected(sub_g)
  \<close>
\<close>

definition sample_subg :: "'g torch \<Rightarrow> evaluator \<Rightarrow> dgl_graph \<Rightarrow> 'g \<Rightarrow> dgl_graph \<times> 'g" where
  "sample_subg R self dgl_g rng =
     (case randperm R rng (length (triu_nonzero dgl_g)) of (perm, rng') \<Rightarrow>
        (let indices = take (edge_limit self div 2) perm;
             sub_g = \<lparr>num_nodes = num_nodes dgl_g,
                      edges = map ((!) (triu_nonzero dgl_g)) indices,
                      ndata = Map.empty\<rparr>
         in (to_bidirected sub_g, rng')))"

text \<open>
  \<^verbatim>\<open>Y_one_hot.argmax(dim=-1)\<close> on one row: the position of the first largest entry. On a
  tensor whose last dimension is empty it raises, which \<open>preprocess_g\<close> below writes out.
\<close>

fun argmax :: "real list \<Rightarrow> nat" where
  "argmax [] = 0"
| "argmax (x # xs) = (if list_all (\<lambda>z. z \<le> x) xs then 0 else Suc (argmax xs))"

text \<open>
  What \<^verbatim>\<open>preprocess_g\<close> has computed when it reaches its last line: the graph, with its masks
  if any; the graph \<open>dgl_subg\<close> that the triangles are counted on; the homophily
  \<open>linkx_A\<close>; the generator. The label tensor \<open>X\<close> of the attributes is used by none of
  them and is left out, and so is the count of the triangles, which networkx computes.
\<close>

record 'g preprocessed =
  pp_dgl_g :: dgl_graph
  pp_dgl_subg :: dgl_graph
  pp_linkx_A :: fval
  pp_rng :: 'g

definition preprocess_g ::
  "'g torch \<Rightarrow> evaluator \<Rightarrow> dgl_graph \<Rightarrow> tensor2d \<Rightarrow> bool \<Rightarrow> 'g \<Rightarrow> error + 'g preprocessed" where
  "preprocess_g R self dgl_g Y_one_hot add_mask_flag rng =
     (case (if add_mask_flag then add_mask R self dgl_g Y_one_hot rng else Inr (dgl_g, rng)) of
        Inl e \<Rightarrow> Inl e
      | Inr (dgl_g', rng') \<Rightarrow>
          (case (if edge_limit self < num_edges dgl_g' then sample_subg R self dgl_g' rng'
                 else (dgl_g', rng')) of
             (dgl_subg, rng'') \<Rightarrow>
               (case (if size1 Y_one_hot = 0 then Inl IndexError
                      else linkx_homophily dgl_g' (map argmax (rows Y_one_hot))) of
                  Inl e \<Rightarrow> Inl e
                | Inr linkx_A \<Rightarrow>
                    Inr \<lparr>pp_dgl_g = dgl_g', pp_dgl_subg = dgl_subg, pp_linkx_A = linkx_A,
                         pp_rng = rng''\<rparr>)))"

text \<open>
  \<^verbatim>\<open>Evaluator.__init__\<close>:
  \<^verbatim>\<open>
    self.data_name = data_name
    self.edge_limit = min(dgl_g_real.num_edges(), 20000)
    add_mask = False
    if data_name in ["amazon_photo", "amazon_computer"]:
        add_mask = True
        torch.manual_seed(0)
    self.preprocess_g(dgl_g_real, X_one_hot_3d_real, Y_one_hot_real, add_mask)
  \<close>
\<close>

definition Evaluator_init ::
  "'g torch \<Rightarrow> string \<Rightarrow> dgl_graph \<Rightarrow> tensor2d \<Rightarrow> 'g \<Rightarrow> error + evaluator \<times> 'g preprocessed" where
  "Evaluator_init R name dgl_g_real Y_one_hot_real rng =
     (let self = \<lparr>data_name = name, edge_limit = min (num_edges dgl_g_real) 20000\<rparr>;
          add_mask_flag = (name \<in> set [''amazon_photo'', ''amazon_computer'']);
          rng1 = (if add_mask_flag then manual_seed R 0 else rng)
      in case preprocess_g R self dgl_g_real Y_one_hot_real add_mask_flag rng1 of
           Inl e \<Rightarrow> Inl e
         | Inr r \<Rightarrow> Inr (self, r))"

subsection \<open>The training loop (train_async.py, lines 57 to 127)\<close>

text \<open>
  The parameters of the model are numbered; the state of a run holds the value and the
  gradient of every parameter, the states of the two optimizers, the generator, and the
  dictionaries sent to \<^verbatim>\<open>wandb.log\<close>, oldest first.
\<close>

type_synonym pid = nat

record ('g, 'o) train_state =
  param :: "pid \<Rightarrow> real"
  grad :: "pid \<Rightarrow> real"
  opt_X :: 'o
  opt_E :: 'o
  generator :: 'g
  wandb_log :: "(string \<times> real) list list"

text \<open>
  \<^verbatim>\<open>ModelAsync\<close> is not part of the source files. It is a parameter: the parameters of
  \<^verbatim>\<open>model.graph_encoder.pred_X\<close> and of \<^verbatim>\<open>model.graph_encoder.pred_E\<close>, and
  \<^verbatim>\<open>model.log_p_t\<close>, which from the values of the parameters, the generator and the two
  columns \<open>batch_src\<close> and \<open>batch_dst\<close> of the batch returns \<open>(loss_X, loss_E)\<close> and the
  generator (the tensors of the dataset, the same in every call, are part of the function).
\<close>

record 'g model_async =
  pred_X :: "pid list"
  pred_E :: "pid list"
  log_p_t :: "(pid \<Rightarrow> real) \<Rightarrow> 'g \<Rightarrow> nat list \<Rightarrow> nat list \<Rightarrow> (real \<times> real) \<times> 'g"

text \<open>
  What the loop uses of torch, beside the generator: \<open>autograd\<close>, the gradient of a scalar
  loss at the current values, for each parameter; and \<open>adamw\<close>, one step of
  \<^verbatim>\<open>torch.optim.AdamW\<close>, from the state of the optimizer and the value and the gradient of
  each of its parameters to their new values and the new state.
\<close>

record ('g, 'o) torch_nn = "'g torch" +
  autograd :: "((pid \<Rightarrow> real) \<Rightarrow> real) \<Rightarrow> (pid \<Rightarrow> real) \<Rightarrow> pid \<Rightarrow> real"
  adamw :: "'o \<Rightarrow> (real \<times> real) list \<Rightarrow> real list \<times> 'o"

record train_config =
  batch_size :: nat
  val_batch_size :: nat
  num_epochs :: nat
  max_grad_norm :: real

text \<open>\<^verbatim>\<open>optimizer.zero_grad()\<close> on the parameters \<open>ps\<close> of the optimizer.\<close>

definition zero_grad :: "pid list \<Rightarrow> ('g, 'o) train_state \<Rightarrow> ('g, 'o) train_state" where
  "zero_grad ps st = st\<lparr>grad := (\<lambda>p. if p \<in> set ps then 0 else grad st p)\<rparr>"

text \<open>\<^verbatim>\<open>loss.backward()\<close>: the gradient of the loss is added to the gradient of every parameter.\<close>

definition backward ::
  "('g, 'o) torch_nn \<Rightarrow> ((pid \<Rightarrow> real) \<Rightarrow> real) \<Rightarrow> ('g, 'o) train_state \<Rightarrow> ('g, 'o) train_state" where
  "backward T loss st = st\<lparr>grad := (\<lambda>p. grad st p + autograd T loss (param st) p)\<rparr>"

text \<open>
  \<^verbatim>\<open>nn.utils.clip_grad_norm_(parameters, max_norm)\<close> is a library function: with
  \<open>total_norm\<close> the 2-norm of the gradients of the given parameters, these gradients are
  multiplied by \<open>max_norm / (total_norm + 1e-6)\<close>, clamped to at most 1.
\<close>

definition total_norm :: "real list \<Rightarrow> real" where
  "total_norm gs = sqrt (sum_list (map (\<lambda>x. x * x) gs))"

definition clip_coef :: "real \<Rightarrow> real list \<Rightarrow> real" where
  "clip_coef max_norm gs = min (max_norm / (total_norm gs + 1 / 1000000)) 1"

definition clip_grad_norm ::
  "pid list \<Rightarrow> real \<Rightarrow> ('g, 'o) train_state \<Rightarrow> ('g, 'o) train_state" where
  "clip_grad_norm ps max_norm st =
     st\<lparr>grad := (\<lambda>p. if p \<in> set ps then grad st p * clip_coef max_norm (map (grad st) ps)
                      else grad st p)\<rparr>"

text \<open>\<^verbatim>\<open>optimizer.step()\<close>: the new values of the parameters \<open>ps\<close> of the optimizer.\<close>

definition step_values ::
  "pid list \<Rightarrow> real list \<Rightarrow> (pid \<Rightarrow> real) \<Rightarrow> pid \<Rightarrow> real" where
  "step_values ps vs old = (\<lambda>p. case map_of (zip ps vs) p of Some v \<Rightarrow> v | None \<Rightarrow> old p)"

definition optimizer_X_step ::
  "('g, 'o) torch_nn \<Rightarrow> pid list \<Rightarrow> ('g, 'o) train_state \<Rightarrow> ('g, 'o) train_state" where
  "optimizer_X_step T ps st =
     (case adamw T (opt_X st) (map (\<lambda>p. (param st p, grad st p)) ps) of
        (vs, opt') \<Rightarrow> st\<lparr>param := step_values ps vs (param st), opt_X := opt'\<rparr>)"

definition optimizer_E_step ::
  "('g, 'o) torch_nn \<Rightarrow> pid list \<Rightarrow> ('g, 'o) train_state \<Rightarrow> ('g, 'o) train_state" where
  "optimizer_E_step T ps st =
     (case adamw T (opt_E st) (map (\<lambda>p. (param st p, grad st p)) ps) of
        (vs, opt') \<Rightarrow> st\<lparr>param := step_values ps vs (param st), opt_E := opt'\<rparr>)"

text \<open>
  The loss that \<^verbatim>\<open>backward\<close> differentiates: \<open>loss_X + loss_E\<close> of the forward pass of this
  batch, as a function of the values of the parameters.
\<close>

definition batch_loss ::
  "'g model_async \<Rightarrow> 'g \<Rightarrow> (nat \<times> nat) list \<Rightarrow> (pid \<Rightarrow> real) \<Rightarrow> real" where
  "batch_loss M g batch_edge_index \<theta> =
     (case fst (log_p_t M \<theta> g (map snd batch_edge_index) (map fst batch_edge_index)) of
        (loss_X, loss_E) \<Rightarrow> loss_X + loss_E)"

text \<open>What \<^verbatim>\<open>loss.backward()\<close> adds to the gradients for a batch: the gradient of that loss.\<close>

definition combined_grad ::
  "('g, 'o) torch_nn \<Rightarrow> 'g model_async \<Rightarrow> (nat \<times> nat) list \<Rightarrow> ('g, 'o) train_state
     \<Rightarrow> pid \<Rightarrow> real" where
  "combined_grad T M batch_edge_index st =
     autograd T (batch_loss M (generator st) batch_edge_index) (param st)"

text \<open>
  What the optimizer of a stream with the parameters \<open>ps\<close> receives if the gradients of the
  combined loss on \<open>ps\<close> are clipped by the norm of the gradients on \<open>ps\<close> alone: the value
  and the clipped gradient of each parameter of the stream.
\<close>

definition stream_step_input ::
  "('g, 'o) torch_nn \<Rightarrow> 'g model_async \<Rightarrow> train_config \<Rightarrow> (nat \<times> nat) list
     \<Rightarrow> ('g, 'o) train_state \<Rightarrow> pid list \<Rightarrow> (real \<times> real) list" where
  "stream_step_input T M cfg batch_edge_index st ps =
     map (\<lambda>p. (param st p,
               combined_grad T M batch_edge_index st p
                 * clip_coef (max_grad_norm cfg) (map (combined_grad T M batch_edge_index st) ps)))
       ps"

text \<open>
  The body of the loop over the batches (lines 101 to 127):
  \<^verbatim>\<open>
    batch_dst, batch_src = batch_edge_index.T
    loss_X, loss_E = model.log_p_t(.., batch_src, batch_dst, ..)
    loss = loss_X + loss_E
    optimizer_X.zero_grad()
    optimizer_E.zero_grad()
    loss.backward()
    nn.utils.clip_grad_norm_(model.graph_encoder.pred_X.parameters(), train_config["max_grad_norm"])
    nn.utils.clip_grad_norm_(model.graph_encoder.pred_E.parameters(), train_config["max_grad_norm"])
    optimizer_X.step()
    optimizer_E.step()
    wandb.log({"train/loss_X": loss_X.item(), "train/loss_E": loss_E.item()})
  \<close>
\<close>

definition train_batch ::
  "('g, 'o) torch_nn \<Rightarrow> 'g model_async \<Rightarrow> train_config \<Rightarrow> (nat \<times> nat) list
     \<Rightarrow> ('g, 'o) train_state \<Rightarrow> ('g, 'o) train_state" where
  "train_batch T M cfg batch_edge_index st =
     (case log_p_t M (param st) (generator st) (map snd batch_edge_index) (map fst batch_edge_index) of
        ((loss_X, loss_E), rng') \<Rightarrow>
          (let st1 = zero_grad (pred_X M) st;
               st2 = zero_grad (pred_E M) st1;
               st3 = backward T (batch_loss M (generator st) batch_edge_index) st2;
               st4 = clip_grad_norm (pred_X M) (max_grad_norm cfg) st3;
               st5 = clip_grad_norm (pred_E M) (max_grad_norm cfg) st4;
               st6 = optimizer_X_step T (pred_X M) st5;
               st7 = optimizer_E_step T (pred_E M) st6
           in st7\<lparr>generator := rng',
                  wandb_log := wandb_log st7 @ [[(''train/loss_X'', loss_X),
                                                 (''train/loss_E'', loss_E)]]\<rparr>))"

text \<open>The same body without its second call of \<^verbatim>\<open>clip_grad_norm_\<close>, and without its first: for comparison.\<close>

definition train_batch_without_clip_E ::
  "('g, 'o) torch_nn \<Rightarrow> 'g model_async \<Rightarrow> train_config \<Rightarrow> (nat \<times> nat) list
     \<Rightarrow> ('g, 'o) train_state \<Rightarrow> ('g, 'o) train_state" where
  "train_batch_without_clip_E T M cfg batch_edge_index st =
     (case log_p_t M (param st) (generator st) (map snd batch_edge_index) (map fst batch_edge_index) of
        ((loss_X, loss_E), rng') \<Rightarrow>
          (let st1 = zero_grad (pred_X M) st;
               st2 = zero_grad (pred_E M) st1;
               st3 = backward T (batch_loss M (generator st) batch_edge_index) st2;
               st4 = clip_grad_norm (pred_X M) (max_grad_norm cfg) st3;
               st6 = optimizer_X_step T (pred_X M) st4;
               st7 = optimizer_E_step T (pred_E M) st6
           in st7\<lparr>generator := rng',
                  wandb_log := wandb_log st7 @ [[(''train/loss_X'', loss_X),
                                                 (''train/loss_E'', loss_E)]]\<rparr>))"

definition train_batch_without_clip_X ::
  "('g, 'o) torch_nn \<Rightarrow> 'g model_async \<Rightarrow> train_config \<Rightarrow> (nat \<times> nat) list
     \<Rightarrow> ('g, 'o) train_state \<Rightarrow> ('g, 'o) train_state" where
  "train_batch_without_clip_X T M cfg batch_edge_index st =
     (case log_p_t M (param st) (generator st) (map snd batch_edge_index) (map fst batch_edge_index) of
        ((loss_X, loss_E), rng') \<Rightarrow>
          (let st1 = zero_grad (pred_X M) st;
               st2 = zero_grad (pred_E M) st1;
               st3 = backward T (batch_loss M (generator st) batch_edge_index) st2;
               st5 = clip_grad_norm (pred_E M) (max_grad_norm cfg) st3;
               st6 = optimizer_X_step T (pred_X M) st5;
               st7 = optimizer_E_step T (pred_E M) st6
           in st7\<lparr>generator := rng',
                  wandb_log := wandb_log st7 @ [[(''train/loss_X'', loss_X),
                                                 (''train/loss_E'', loss_E)]]\<rparr>))"

text \<open>
  \<^verbatim>\<open>DataLoader(dataset, batch_size=.., shuffle=..)\<close> is a library class. Its constructor
  raises \<^verbatim>\<open>ValueError\<close> for a shuffling loader on an empty dataset (the random sampler
  refuses \<^verbatim>\<open>num_samples=0\<close>) and, after that, for a batch size that is not positive. A
  loader is its dataset and its batch size.
\<close>

definition DataLoader ::
  "(nat \<times> nat) list \<Rightarrow> nat \<Rightarrow> bool \<Rightarrow> error + (nat \<times> nat) list \<times> nat" where
  "DataLoader dataset bs shuffle =
     (if shuffle \<and> dataset = []
        then Inl (ValueError
               ''num_samples should be a positive integer value, but got num_samples=0'')
      else if bs = 0
        then Inl (ValueError
               ''batch_size should be a positive integer value, but got batch_size=0'')
      else Inr (dataset, bs))"

text \<open>
  Each pass over a shuffling loader draws a permutation of the dataset and cuts it into
  batches of \<open>batch_size\<close> rows, the last one shorter if need be.
\<close>

function chunks :: "nat \<Rightarrow> 'a list \<Rightarrow> 'a list list" where
  "chunks n xs = (if n = 0 \<or> xs = [] then [] else take n xs # chunks n (drop n xs))"
  by pat_completeness auto
termination
  by (relation "measure (\<lambda>(n, xs). length xs)") auto

declare chunks.simps [simp del]

definition shuffled_batches ::
  "('g, 'o) torch_nn \<Rightarrow> (nat \<times> nat) list \<times> nat \<Rightarrow> 'g \<Rightarrow> (nat \<times> nat) list list \<times> 'g" where
  "shuffled_batches T data_loader g =
     (case data_loader of (dataset, bs) \<Rightarrow>
        (case randperm T g (length dataset) of
           (perm, g') \<Rightarrow> (chunks bs (map ((!) dataset) perm), g')))"

text \<open>One pass of the loop over the epochs (lines 98 to 127): every batch of the loader.\<close>

definition train_epoch ::
  "('g, 'o) torch_nn \<Rightarrow> 'g model_async \<Rightarrow> train_config \<Rightarrow> (nat \<times> nat) list \<times> nat
     \<Rightarrow> ('g, 'o) train_state \<Rightarrow> ('g, 'o) train_state" where
  "train_epoch T M cfg data_loader st =
     (case shuffled_batches T data_loader (generator st) of
        (batches, g') \<Rightarrow> fold (train_batch T M cfg) batches (st\<lparr>generator := g'\<rparr>))"

text \<open>
  Lines 96 to 127: \<^verbatim>\<open>num_patient_epochs = 0\<close>, then the loop over
  \<^verbatim>\<open>range(train_config["num_epochs"])\<close>. The state of the loop is the counter
  \<open>num_patient_epochs\<close> and the state of the run.
\<close>

record ('g, 'o) loop_state =
  num_patient_epochs :: nat
  run :: "('g, 'o) train_state"

definition epoch_body ::
  "('g, 'o) torch_nn \<Rightarrow> 'g model_async \<Rightarrow> train_config \<Rightarrow> (nat \<times> nat) list \<times> nat \<Rightarrow> nat
     \<Rightarrow> ('g, 'o) loop_state \<Rightarrow> ('g, 'o) loop_state" where
  "epoch_body T M cfg data_loader epoch ls =
     ls\<lparr>run := train_epoch T M cfg data_loader (run ls)\<rparr>"

definition train_loop ::
  "('g, 'o) torch_nn \<Rightarrow> 'g model_async \<Rightarrow> train_config \<Rightarrow> (nat \<times> nat) list \<times> nat
     \<Rightarrow> ('g, 'o) train_state \<Rightarrow> ('g, 'o) loop_state" where
  "train_loop T M cfg data_loader st =
     fold (epoch_body T M cfg data_loader) [0..<num_epochs cfg]
       \<lparr>num_patient_epochs = 0, run = st\<rparr>"

text \<open>
  \<^verbatim>\<open>main\<close> from the edge index to the end of the loop (lines 49 to 127): the edge index,
  the two loaders, whose construction may raise, and the loop. The state \<open>st\<close> is the state
  of the run when the loop is reached.
  \<^verbatim>\<open>
    data_loader = DataLoader(edge_index.cpu(), batch_size=train_config["batch_size"],
                             shuffle=True, num_workers=4)
    val_data_loader = DataLoader(edge_index, batch_size=train_config["val_batch_size"],
                                 shuffle=False)
  \<close>
\<close>

definition main ::
  "('g, 'o) torch_nn \<Rightarrow> 'g model_async \<Rightarrow> train_config \<Rightarrow> nat
     \<Rightarrow> ('g, 'o) train_state \<Rightarrow> error + ('g, 'o) loop_state" where
  "main T M cfg N st =
     (case DataLoader (edge_index N) (batch_size cfg) True of
        Inl e \<Rightarrow> Inl e
      | Inr data_loader \<Rightarrow>
          (case DataLoader (edge_index N) (val_batch_size cfg) False of
             Inl e \<Rightarrow> Inl e
           | Inr val_data_loader \<Rightarrow> Inr (train_loop T M cfg data_loader st)))"

subsection \<open>Sample inputs\<close>

text \<open>
  A small generator to run the definitions on: in an even state \<open>randperm\<close> returns the
  identity, in an odd state the reversal, and every call moves to the next state.
\<close>

definition flip_torch :: "nat torch" where
  "flip_torch =
     \<lparr>randperm = (\<lambda>s n. (if even s then [0..<n] else rev [0..<n], Suc s)),
      manual_seed = nat\<rparr>"

text \<open>Four nodes in two classes, both pairs of classmates joined in both directions.\<close>

definition two_pairs :: dgl_graph where
  "two_pairs = \<lparr>num_nodes = 4, edges = [(0, 1), (1, 0), (2, 3), (3, 2)], ndata = Map.empty\<rparr>"

definition two_pairs_Y :: tensor2d where
  "two_pairs_Y = \<lparr>size1 = 2, rows = [[1, 0], [1, 0], [0, 1], [0, 1]]\<rparr>"

text \<open>
  For the training loop: the difference quotient with step 1 as \<open>autograd\<close>; a plain
  gradient step as optimizer, whose state counts its steps; a model with one parameter in
  each stream, whose losses are the value of parameter 0 and a hundred times the value of
  parameter 1; and a model whose two losses are always 1.
\<close>

definition flip_nn :: "(nat, nat) torch_nn" where
  "flip_nn =
     \<lparr>randperm = (\<lambda>s n. (if even s then [0..<n] else rev [0..<n], Suc s)),
      manual_seed = nat,
      autograd = (\<lambda>loss \<theta> p. loss (\<theta>(p := \<theta> p + 1)) - loss \<theta>),
      adamw = (\<lambda>k vgs. (map (\<lambda>vg. fst vg - snd vg / 10) vgs, Suc k))\<rparr>"

definition linear_model :: "nat model_async" where
  "linear_model =
     \<lparr>pred_X = [0], pred_E = [1],
      log_p_t = (\<lambda>\<theta> g batch_src batch_dst. ((\<theta> 0, 100 * \<theta> 1), Suc g))\<rparr>"

definition constant_model :: "nat model_async" where
  "constant_model =
     \<lparr>pred_X = [0], pred_E = [1],
      log_p_t = (\<lambda>\<theta> g batch_src batch_dst. ((1, 1), Suc g))\<rparr>"

definition start_state :: "(nat, nat) train_state" where
  "start_state =
     \<lparr>param = (\<lambda>p. 0), grad = (\<lambda>p. 0), opt_X = 0, opt_E = 0, generator = 0, wandb_log = []\<rparr>"

definition small_config :: train_config where
  "small_config = \<lparr>batch_size = 1, val_batch_size = 1, num_epochs = 3, max_grad_norm = 5\<rparr>"

subsection \<open>The key format of the specification\<close>

text \<open>
  The specification gives the keys of the metrics as \<^verbatim>\<open>{stream_name}/loss\<close>: the name of
  the stream followed by \<^verbatim>\<open>/loss\<close>. A string has this form if it ends with \<^verbatim>\<open>/loss\<close>.
\<close>

definition spec_loss_key :: "string \<Rightarrow> bool" where
  "spec_loss_key k = (drop (length k - 5) k = ''/loss'')"

section \<open>The edge index\<close>

lemma triu_row: "filter (\<lambda>j. int i + 1 \<le> int j) [0..<N] = [Suc i..<N]"
proof -
  have "filter (\<lambda>j. int i + 1 \<le> int j) [0..<N] = filter (\<lambda>j. Suc i \<le> j) [0..<N]"
    by (rule filter_cong) auto
  also have "\<dots> = [Suc i..<N]"
    by (induction N) (auto simp: not_less_eq_eq)
  finally show ?thesis .
qed

lemma edge_index_rows: "edge_index N = concat (map (\<lambda>i. map (Pair i) [Suc i..<N]) [0..<N])"
  by (simp add: edge_index_def triu_indices_def triu_row zip_map_fst_snd Let_def)

lemma set_edge_index: "set (edge_index N) = {(i, j). i < j \<and> j < N}"
  by (force simp: edge_index_rows)

lemma length_rows:
  "length (concat (map (\<lambda>i. map (Pair i) [Suc i..<N]) [0..<M])) = (\<Sum>i<M. N - Suc i)"
  by (induction M) (simp_all add: length_concat)

lemma sum_below: "(\<Sum>i<N. i) = N * (N - 1) div (2::nat)"
proof (induction N)
  case 0
  show ?case by simp
next
  case (Suc N)
  have "N * (N - 1) div 2 + N = (N * (N - 1) + 2 * N) div 2" by simp
  also have "N * (N - 1) + 2 * N = Suc N * N" by (cases N) simp_all
  finally show ?case using Suc by simp
qed

lemma length_edge_index: "length (edge_index N) = N * (N - 1) div 2"
proof -
  have "length (edge_index N) = (\<Sum>i<N. N - Suc i)"
    by (simp add: edge_index_rows length_rows)
  also have "\<dots> = (\<Sum>i<N. i)"
    by (rule sum.nat_diff_reindex)
  finally show ?thesis by (simp add: sum_below)
qed

lemma distinct_rows: "distinct (concat (map (\<lambda>i. map (Pair i) [Suc i..<N]) [0..<M]))"
  by (induction M) (auto simp: distinct_map inj_on_def)

lemma sorted_rows:
  "sorted_wrt row_major_less (concat (map (\<lambda>i. map (Pair i) [Suc i..<N]) [0..<M]))"
  by (induction M) (auto simp: sorted_wrt_append row_major_less_def sorted_wrt_map)

text \<open>
  Claim C6. For every node count \<open>N \<ge> 2\<close>, the edge index built by the trainer has exactly
  \<open>N (N - 1) / 2\<close> entries, no pair is repeated, no pair has equal endpoints, the first
  index of every entry is strictly less than its second index, and the entries are all the
  pairs \<open>i < j < N\<close> in row-major order.
\<close>

theorem C6_edge_index:
  assumes "2 \<le> N"
  shows "length (edge_index N) = N * (N - 1) div 2
       \<and> distinct (edge_index N)
       \<and> list_all (\<lambda>e. fst e \<noteq> snd e) (edge_index N)
       \<and> list_all (\<lambda>e. fst e < snd e) (edge_index N)
       \<and> set (edge_index N) = {(i, j). i < j \<and> j < N}
       \<and> sorted_wrt row_major_less (edge_index N)"
proof -
  have "distinct (edge_index N)"
    by (simp add: edge_index_rows distinct_rows)
  moreover have "list_all (\<lambda>e. fst e < snd e) (edge_index N)"
    by (auto simp: list_all_iff set_edge_index)
  moreover have "list_all (\<lambda>e. fst e \<noteq> snd e) (edge_index N)"
    by (auto simp: list_all_iff set_edge_index)
  moreover have "sorted_wrt row_major_less (edge_index N)"
    by (simp add: edge_index_rows sorted_rows)
  ultimately show ?thesis
    by (simp add: length_edge_index set_edge_index)
qed

theorem C6_edge_index_witness:
  "length (edge_index 4) = 6 \<and> distinct (edge_index 4)
   \<and> edge_index 4 = [(0, 1), (0, 2), (0, 3), (1, 2), (1, 3), (2, 3)]"
proof -
  have "(2::nat) \<le> 4" by simp
  from C6_edge_index [OF this]
  have "length (edge_index 4) = 4 * (4 - 1) div 2" and "distinct (edge_index 4)"
    by blast+
  moreover have "edge_index 4 = [(0, 1), (0, 2), (0, 3), (1, 2), (1, 3), (2, 3)]"
    by code_simp
  ultimately show ?thesis by simp
qed

section \<open>The dataset identifier\<close>

lemma linkx_homophily_not_ValueError: "linkx_homophily g y \<noteq> Inl (ValueError msg)"
  by (simp add: linkx_homophily_def py_truediv_def Let_def)

lemma Evaluator_init_without_mask:
  assumes "name \<notin> set [''amazon_photo'', ''amazon_computer'']"
  shows "Evaluator_init R name g Y rng \<noteq> Inl (ValueError msg)"
    and "Evaluator_init R name g Y rng = Inr (self, r) \<Longrightarrow> pp_dgl_g r = g"
  using assms linkx_homophily_not_ValueError
  by (auto simp: Evaluator_init_def preprocess_g_def Let_def
           split: sum.splits prod.splits if_splits)

lemma Evaluator_init_pubmed:
  "Evaluator_init flip_torch ''pubmed'' two_pairs two_pairs_Y 7
     = Inr (\<lparr>data_name = ''pubmed'', edge_limit = 4\<rparr>,
            \<lparr>pp_dgl_g = two_pairs, pp_dgl_subg = two_pairs, pp_linkx_A = Fin 1, pp_rng = 7\<rparr>)"
proof -
  have h: "linkx_homophily two_pairs (map argmax (rows two_pairs_Y)) = Inr (Fin 1)"
    by code_simp
  have n: "num_edges two_pairs = 4" "size1 two_pairs_Y = 2"
    by (simp_all add: num_edges_def two_pairs_def two_pairs_Y_def)
  show ?thesis
    by (simp add: Evaluator_init_def preprocess_g_def Let_def h n)
qed

text \<open>
  Claim C1, as stated, fails: the constructor of an \<open>Evaluator\<close> with the unrecognized
  identifier \<open>pubmed\<close> returns, with the statistics computed, and raises nothing.
\<close>

theorem C1_counterexample:
  "Evaluator_init flip_torch ''pubmed'' two_pairs two_pairs_Y 7
     = Inr (\<lparr>data_name = ''pubmed'', edge_limit = 4\<rparr>,
            \<lparr>pp_dgl_g = two_pairs, pp_dgl_subg = two_pairs, pp_linkx_A = Fin 1, pp_rng = 7\<rparr>)"
  by (rule Evaluator_init_pubmed)

text \<open>
  Claim C1, amended. For every dataset identifier outside the recognized set
  \<open>{cora, citeseer, amazon_photo, amazon_computer}\<close>, the dispatch \<open>add_mask\<close> fails with an
  invalid-argument error whose message names the unrecognized value, before any mask is
  attached. The constructor calls \<open>add_mask\<close> for \<open>amazon_photo\<close> and \<open>amazon_computer\<close>
  only: with an unrecognized identifier it raises no invalid-argument error, and a graph
  that it returns is the graph it was given, without masks added.
\<close>

theorem C1_unexpected_data_name:
  assumes "name \<notin> set [''cora'', ''citeseer'', ''amazon_photo'', ''amazon_computer'']"
  shows "add_mask R \<lparr>data_name = name, edge_limit = l\<rparr> dgl_g Y rng
           = Inl (ValueError (''Unexpected data name: '' @ name))
       \<and> (\<forall>msg. Evaluator_init R name dgl_g Y rng \<noteq> Inl (ValueError msg))
       \<and> (\<forall>self r. Evaluator_init R name dgl_g Y rng = Inr (self, r) \<longrightarrow> pp_dgl_g r = dgl_g)"
proof -
  from assms have a: "name \<notin> set [''amazon_photo'', ''amazon_computer'']"
    by simp
  have "add_mask R \<lparr>data_name = name, edge_limit = l\<rparr> dgl_g Y rng
          = Inl (ValueError (''Unexpected data name: '' @ name))"
    using assms by (simp add: add_mask_def)
  moreover have "\<forall>msg. Evaluator_init R name dgl_g Y rng \<noteq> Inl (ValueError msg)"
    by (rule allI) (rule Evaluator_init_without_mask(1) [OF a])
  moreover have "\<forall>self r. Evaluator_init R name dgl_g Y rng = Inr (self, r) \<longrightarrow> pp_dgl_g r = dgl_g"
    by (intro allI impI) (rule Evaluator_init_without_mask(2) [OF a])
  ultimately show ?thesis
    by simp
qed

theorem C1_unexpected_data_name_witness:
  "add_mask flip_torch \<lparr>data_name = ''pubmed'', edge_limit = 4\<rparr> two_pairs two_pairs_Y 7
     = Inl (ValueError ''Unexpected data name: pubmed'')
   \<and> Evaluator_init flip_torch ''pubmed'' two_pairs two_pairs_Y 7
       = Inr (\<lparr>data_name = ''pubmed'', edge_limit = 4\<rparr>,
              \<lparr>pp_dgl_g = two_pairs, pp_dgl_subg = two_pairs, pp_linkx_A = Fin 1, pp_rng = 7\<rparr>)
   \<and> pp_dgl_g \<lparr>pp_dgl_g = two_pairs, pp_dgl_subg = two_pairs, pp_linkx_A = Fin 1,
                pp_rng = (7::nat)\<rparr> = two_pairs"
proof -
  have "''pubmed'' \<notin> set [''cora'', ''citeseer'', ''amazon_photo'', ''amazon_computer'']"
    by simp
  from C1_unexpected_data_name
         [where name = "''pubmed''" and R = flip_torch and l = 4 and dgl_g = two_pairs
            and Y = two_pairs_Y and rng = 7, OF this]
  show ?thesis
    using Evaluator_init_pubmed by simp
qed

section \<open>The training loop\<close>

lemma spec_loss_key_iff: "spec_loss_key k \<longleftrightarrow> (\<exists>name. k = name @ ''/loss'')"
proof
  assume "spec_loss_key k"
  then have d: "drop (length k - 5) k = ''/loss''"
    by (simp only: spec_loss_key_def)
  have "k = take (length k - 5) k @ drop (length k - 5) k"
    by (rule append_take_drop_id [symmetric])
  then have "k = take (length k - 5) k @ ''/loss''"
    unfolding d .
  then show "\<exists>name. k = name @ ''/loss''"
    by (rule exI [of "\<lambda>name. k = name @ ''/loss''" "take (length k - 5) k"])
next
  assume "\<exists>name. k = name @ ''/loss''"
  then obtain name where k: "k = name @ ''/loss''" ..
  have l: "length k - 5 = length name"
    unfolding k by simp
  show "spec_loss_key k"
    unfolding spec_loss_key_def l unfolding k by simp
qed
lemma div_round_up_step:
  assumes "0 < n" "0 < (m::nat)"
  shows "Suc ((m - n + n - 1) div n) = (m + n - 1) div n"
proof (cases "n \<le> m")
  case True
  have n0: "n \<noteq> 0" using assms(1) by simp
  from True assms have e1: "m - n + n - 1 = m - 1" by arith
  from True assms have e2: "m + n - 1 = (m - 1) + n" by arith
  have "((m - 1) + n) div n = (m - 1) div n + 1"
    by (rule div_add_self2 [OF n0])
  then show ?thesis
    by (simp only: e1 e2 Suc_eq_plus1)
next
  case False
  with assms have a: "m - n + n - 1 < n" by arith
  from False assms have b: "m + n - 1 = (m - 1) + n" and c: "m - 1 < n" by arith+
  have n0: "n \<noteq> 0" using assms(1) by simp
  have "((m - 1) + n) div n = (m - 1) div n + 1"
    by (rule div_add_self2 [OF n0])
  then have "(m + n - 1) div n = 1"
    by (simp only: b div_less [OF c])
  moreover have "(m - n + n - 1) div n = 0"
    by (rule div_less [OF a])
  ultimately show ?thesis by (simp only: One_nat_def)
qed

lemma length_chunks:
  assumes "0 < n"
  shows "length (chunks n xs) = (length xs + n - 1) div n"
  using assms
proof (induction n xs rule: chunks.induct)
  case (1 n xs)
  show ?case
  proof (cases "xs = []")
    case True
    have "chunks n [] = []" by (simp add: chunks.simps)
    moreover have "(n - 1) div n = 0" using 1(2) by simp
    ultimately show ?thesis using True by simp
  next
    case False
    then have IH: "length (chunks n (drop n xs)) = (length (drop n xs) + n - 1) div n"
      using 1 by simp
    have c: "chunks n xs = take n xs # chunks n (drop n xs)"
      using False 1(2) by (subst chunks.simps) simp
    have "length (chunks n xs) = Suc ((length xs - n + n - 1) div n)"
      unfolding c using IH by simp
    also have "\<dots> = (length xs + n - 1) div n"
      using False 1(2) by (intro div_round_up_step) simp_all
    finally show ?thesis .
  qed
qed

lemma wandb_log_train_batch:
  "wandb_log (train_batch T M cfg b st)
     = wandb_log st @ [[(''train/loss_X'', fst (fst (log_p_t M (param st) (generator st) (map snd b) (map fst b)))),
                        (''train/loss_E'', snd (fst (log_p_t M (param st) (generator st) (map snd b) (map fst b))))]]"
  by (simp add: train_batch_def Let_def optimizer_E_step_def optimizer_X_step_def clip_grad_norm_def
        backward_def zero_grad_def split: prod.splits)

lemma length_wandb_log_fold:
  "length (wandb_log (fold (train_batch T M cfg) bs st)) = length (wandb_log st) + length bs"
  by (induction bs arbitrary: st) (simp_all add: wandb_log_train_batch)

lemma length_randperm:
  assumes "randperm_ok R"
  shows "length (fst (randperm R g n)) = n"
proof -
  from assms have d: "distinct (fst (randperm R g n))" and s: "set (fst (randperm R g n)) = {0..<n}"
    by (simp_all add: randperm_ok_def)
  have "card (set (fst (randperm R g n))) = length (fst (randperm R g n))"
    by (rule distinct_card) (rule d)
  with s show ?thesis by simp
qed

lemma length_wandb_log_epoch:
  assumes "randperm_ok T" "0 < bs"
  shows "length (wandb_log (train_epoch T M cfg (ds, bs) st))
       = length (wandb_log st) + (length ds + bs - 1) div bs"
proof -
  obtain perm g' where p: "randperm T (generator st) (length ds) = (perm, g')"
    by (cases "randperm T (generator st) (length ds)")
  with length_randperm [OF assms(1), of "generator st" "length ds"]
  have lp: "length perm = length ds" by simp
  have "length (chunks bs (map ((!) ds) perm)) = (length ds + bs - 1) div bs"
    using length_chunks [OF assms(2), of "map ((!) ds) perm"] lp by simp
  then show ?thesis
    by (simp add: train_epoch_def shuffled_batches_def p length_wandb_log_fold)
qed

lemma train_loop_fold:
  assumes "randperm_ok T" "0 < bs"
  shows "num_patient_epochs (fold (epoch_body T M cfg (ds, bs)) es ls) = num_patient_epochs ls
       \<and> length (wandb_log (run (fold (epoch_body T M cfg (ds, bs)) es ls)))
           = length (wandb_log (run ls)) + length es * ((length ds + bs - 1) div bs)"
  by (induction es arbitrary: ls)
     (simp_all add: epoch_body_def length_wandb_log_epoch [OF assms])

lemma edge_index_not_empty: "2 \<le> N \<Longrightarrow> edge_index N \<noteq> []"
proof -
  assume "2 \<le> N"
  then have "(0, 1) \<in> set (edge_index N)"
    by (simp add: set_edge_index)
  then show ?thesis by auto
qed

lemma randperm_ok_flip_nn: "randperm_ok flip_nn"
  by (simp add: randperm_ok_def flip_nn_def)

lemma randperm_ok_flip_torch: "randperm_ok flip_torch"
  by (simp add: randperm_ok_def flip_torch_def)

lemma train_loss_X_key: "\<not> spec_loss_key ''train/loss_X''"
  by (simp add: spec_loss_key_def)

lemma train_loss_E_key: "\<not> spec_loss_key ''train/loss_E''"
  by (simp add: spec_loss_key_def)

lemma wandb_log_constant_model:
  "wandb_log (train_batch T constant_model cfg b st)
     = wandb_log st @ [[(''train/loss_X'', 1), (''train/loss_E'', 1)]]"
  by (simp add: wandb_log_train_batch constant_model_def)

lemma chunks_one: "chunks (Suc 0) [x] = [[x]]"
  by (simp add: chunks.simps)

lemma wandb_log_constant_epoch:
  "wandb_log (train_epoch flip_nn constant_model small_config ([(0, Suc 0)], Suc 0) st)
     = wandb_log st @ [[(''train/loss_X'', 1), (''train/loss_E'', 1)]]"
proof -
  have "randperm flip_nn (generator st) 1 = ([0], Suc (generator st))"
    by (simp add: flip_nn_def)
  then show ?thesis
    by (simp add: train_epoch_def shuffled_batches_def chunks_one wandb_log_constant_model)
qed

lemma main_small:
  "main flip_nn constant_model small_config 2 start_state
     = Inr (train_loop flip_nn constant_model small_config ([(0, Suc 0)], Suc 0) start_state)"
proof -
  have e: "edge_index 2 = [(0, 1)]" by code_simp
  show ?thesis
    by (simp add: main_def DataLoader_def e small_config_def)
qed

text \<open>
  Claim C8, as stated, fails: the keys that a mini-batch sends to the metrics sink are
  \<open>train/loss_X\<close> and \<open>train/loss_E\<close>, and neither has the form of a stream name followed
  by \<open>/loss\<close>.
\<close>

theorem C8_counterexample:
  "map fst (last (wandb_log (train_batch flip_nn linear_model small_config [(0, 1)] start_state)))
     = [''train/loss_X'', ''train/loss_E'']
   \<and> filter spec_loss_key
        (map fst (last (wandb_log
           (train_batch flip_nn linear_model small_config [(0, 1)] start_state))))
     = []"
  by (simp add: wandb_log_train_batch train_loss_X_key train_loss_E_key)

text \<open>
  Claim C8, amended. Every mini-batch sends its two per-stream loss values to the metrics
  sink as one dictionary with the keys \<open>train/loss_X\<close> and \<open>train/loss_E\<close>, one key for
  each stream: the log grows by exactly this dictionary, whose values are the \<open>loss_X\<close>
  and the \<open>loss_E\<close> that the model returned for the batch.
\<close>

theorem C8_train_loss_keys:
  "wandb_log (train_batch T M cfg batch_edge_index st)
     = wandb_log st
       @ [[(''train/loss_X'',
            fst (fst (log_p_t M (param st) (generator st)
                        (map snd batch_edge_index) (map fst batch_edge_index)))),
           (''train/loss_E'',
            snd (fst (log_p_t M (param st) (generator st)
                        (map snd batch_edge_index) (map fst batch_edge_index))))]]"
  by (rule wandb_log_train_batch)

text \<open>
  Claim C2, as stated, fails: with two nodes, a budget of three epochs and a model whose
  two losses are the same in every batch, so that neither stream ever improves, \<open>main\<close>
  still makes all three passes; nothing stops it before the budget, and
  \<open>num_patient_epochs\<close> is 0 at the end.
\<close>

theorem C2_counterexample:
  "(case main flip_nn constant_model small_config 2 start_state of
      Inl e \<Rightarrow> None
    | Inr ls \<Rightarrow> Some (wandb_log (run ls), num_patient_epochs ls))
     = Some ([[(''train/loss_X'', 1), (''train/loss_E'', 1)],
              [(''train/loss_X'', 1), (''train/loss_E'', 1)],
              [(''train/loss_X'', 1), (''train/loss_E'', 1)]], 0)"
proof -
  have u: "[0..<num_epochs small_config] = [0, 1, 2]"
    by (simp add: small_config_def upt_rec)
  show ?thesis
    unfolding main_small
    by (simp add: train_loop_def u epoch_body_def wandb_log_constant_epoch start_state_def)
qed

text \<open>
  Claim C2, amended. For a graph with at least two nodes and positive batch sizes
  \<open>train.batch_size\<close> and \<open>train.val_batch_size\<close> (otherwise the construction of a loader
  raises before the loop), the training loop reaches its terminal state exactly when the
  configured epoch budget \<open>train.num_epochs\<close> is exhausted: whatever losses the model
  returns, \<open>main\<close> returns after each of the \<open>num_epochs\<close> passes has run over all the
  batches of the edge index (one logged dictionary for each batch, and
  \<open>\<lceil>(N (N - 1) / 2) / batch_size\<rceil> \<ge> 1\<close> batches in each pass), and the counter
  \<open>num_patient_epochs\<close> is 0 at the end. Non-improvement of the streams does not stop the
  training before the budget.
\<close>

theorem C2_epoch_budget:
  assumes "randperm_ok T" and "2 \<le> N" and "0 < batch_size cfg" and "0 < val_batch_size cfg"
  shows "main T M cfg N st = Inr (train_loop T M cfg (edge_index N, batch_size cfg) st)
       \<and> length (wandb_log (run (train_loop T M cfg (edge_index N, batch_size cfg) st)))
           = length (wandb_log st)
             + num_epochs cfg * ((N * (N - 1) div 2 + batch_size cfg - 1) div batch_size cfg)
       \<and> 0 < (N * (N - 1) div 2 + batch_size cfg - 1) div batch_size cfg
       \<and> num_patient_epochs (train_loop T M cfg (edge_index N, batch_size cfg) st) = 0"
proof -
  have m: "main T M cfg N st = Inr (train_loop T M cfg (edge_index N, batch_size cfg) st)"
    using assms(3,4) edge_index_not_empty [OF assms(2)]
    by (simp add: main_def DataLoader_def)
  have "length (edge_index N) \<noteq> 0"
    using edge_index_not_empty [OF assms(2)] by simp
  then have "0 < N * (N - 1) div 2"
    by (simp add: length_edge_index)
  then have "batch_size cfg \<le> N * (N - 1) div 2 + batch_size cfg - 1"
    by simp
  then have b: "0 < (N * (N - 1) div 2 + batch_size cfg - 1) div batch_size cfg"
    using assms(3) by (simp add: div_greater_zero_iff)
  from m b train_loop_fold [OF assms(1,3), of M cfg "edge_index N" "[0..<num_epochs cfg]"
          "\<lparr>num_patient_epochs = 0, run = st\<rparr>"]
  show ?thesis
    by (simp add: train_loop_def length_edge_index)
qed

theorem C2_epoch_budget_witness:
  "main flip_nn constant_model small_config 2 start_state
     = Inr (train_loop flip_nn constant_model small_config (edge_index 2, 1) start_state)
   \<and> length (wandb_log (run
        (train_loop flip_nn constant_model small_config (edge_index 2, 1) start_state))) = 3
   \<and> num_patient_epochs
        (train_loop flip_nn constant_model small_config (edge_index 2, 1) start_state) = 0"
proof -
  have b: "0 < batch_size small_config" "0 < val_batch_size small_config" "(2::nat) \<le> 2"
    by (simp_all add: small_config_def)
  from C2_epoch_budget [OF randperm_ok_flip_nn b(3) b(1) b(2), of constant_model start_state]
  show ?thesis
    by (simp add: small_config_def start_state_def)
qed

section \<open>Clipping and the two optimizers\<close>

lemma map_of_zip_None: "p \<notin> set ps \<Longrightarrow> map_of (zip ps vs) p = None"
  by (induction ps vs rule: list_induct2') auto

lemma step_values_cong_at:
  "old p = old' p \<Longrightarrow> step_values ps vs old p = step_values ps vs old' p"
  by (simp add: step_values_def split: option.splits)

lemma step_values_other: "p \<notin> set ps \<Longrightarrow> step_values ps vs old p = old p"
  by (simp add: step_values_def map_of_zip_None)

lemma grad_after_backward:
  assumes "p \<in> set pX \<union> set pE"
  shows "grad (backward T L (zero_grad pE (zero_grad pX st))) p = autograd T L (param st) p"
  using assms by (auto simp: backward_def zero_grad_def)

lemma param_after_backward:
  "param (backward T L (zero_grad pE (zero_grad pX st))) = param st"
  by (simp add: backward_def zero_grad_def)

lemma opt_after_backward:
  "opt_X (backward T L (zero_grad pE (zero_grad pX st))) = opt_X st"
  "opt_E (backward T L (zero_grad pE (zero_grad pX st))) = opt_E st"
  by (simp_all add: backward_def zero_grad_def)

lemma clip_grad_norm_in:
  assumes "\<And>q. q \<in> set ps \<Longrightarrow> grad st q = G q" and "p \<in> set ps"
  shows "grad (clip_grad_norm ps c st) p = G p * clip_coef c (map G ps)"
proof -
  have m: "map (grad st) ps = map G ps"
    using assms(1) by (simp cong: map_cong)
  show ?thesis
    by (simp add: clip_grad_norm_def m assms)
qed

lemma clip_grad_norm_out:
  "p \<notin> set ps \<Longrightarrow> grad (clip_grad_norm ps c st) p = grad st p"
  by (simp add: clip_grad_norm_def)

lemma clip_grad_norm_fields:
  "param (clip_grad_norm ps c st) = param st"
  "opt_X (clip_grad_norm ps c st) = opt_X st"
  "opt_E (clip_grad_norm ps c st) = opt_E st"
  by (simp_all add: clip_grad_norm_def)


lemma optimizer_X_step_fields:
  "param (optimizer_X_step T ps st)
     = step_values ps (fst (adamw T (opt_X st) (map (\<lambda>p. (param st p, grad st p)) ps))) (param st)"
  "opt_X (optimizer_X_step T ps st) = snd (adamw T (opt_X st) (map (\<lambda>p. (param st p, grad st p)) ps))"
  "opt_E (optimizer_X_step T ps st) = opt_E st"
  "grad (optimizer_X_step T ps st) = grad st"
  by (simp_all add: optimizer_X_step_def split: prod.splits)

lemma optimizer_E_step_fields:
  "param (optimizer_E_step T ps st)
     = step_values ps (fst (adamw T (opt_E st) (map (\<lambda>p. (param st p, grad st p)) ps))) (param st)"
  "opt_E (optimizer_E_step T ps st) = snd (adamw T (opt_E st) (map (\<lambda>p. (param st p, grad st p)) ps))"
  "opt_X (optimizer_E_step T ps st) = opt_X st"
  "grad (optimizer_E_step T ps st) = grad st"
  by (simp_all add: optimizer_E_step_def split: prod.splits)


lemma train_batch_stages:
  "param (train_batch T M cfg b st)
     = param (optimizer_E_step T (pred_E M) (optimizer_X_step T (pred_X M)
         (clip_grad_norm (pred_E M) (max_grad_norm cfg) (clip_grad_norm (pred_X M) (max_grad_norm cfg)
           (backward T (batch_loss M (generator st) b) (zero_grad (pred_E M) (zero_grad (pred_X M) st)))))))"
  "opt_X (train_batch T M cfg b st)
     = opt_X (optimizer_E_step T (pred_E M) (optimizer_X_step T (pred_X M)
         (clip_grad_norm (pred_E M) (max_grad_norm cfg) (clip_grad_norm (pred_X M) (max_grad_norm cfg)
           (backward T (batch_loss M (generator st) b) (zero_grad (pred_E M) (zero_grad (pred_X M) st)))))))"
  "opt_E (train_batch T M cfg b st)
     = opt_E (optimizer_E_step T (pred_E M) (optimizer_X_step T (pred_X M)
         (clip_grad_norm (pred_E M) (max_grad_norm cfg) (clip_grad_norm (pred_X M) (max_grad_norm cfg)
           (backward T (batch_loss M (generator st) b) (zero_grad (pred_E M) (zero_grad (pred_X M) st)))))))"
  by (simp_all add: train_batch_def Let_def split: prod.splits)

lemma train_batch_without_clip_E_stages:
  "param (train_batch_without_clip_E T M cfg b st)
     = param (optimizer_E_step T (pred_E M) (optimizer_X_step T (pred_X M)
         (clip_grad_norm (pred_X M) (max_grad_norm cfg)
           (backward T (batch_loss M (generator st) b) (zero_grad (pred_E M) (zero_grad (pred_X M) st))))))"
  "opt_X (train_batch_without_clip_E T M cfg b st)
     = opt_X (optimizer_E_step T (pred_E M) (optimizer_X_step T (pred_X M)
         (clip_grad_norm (pred_X M) (max_grad_norm cfg)
           (backward T (batch_loss M (generator st) b) (zero_grad (pred_E M) (zero_grad (pred_X M) st))))))"
  by (simp_all add: train_batch_without_clip_E_def Let_def split: prod.splits)

lemma train_batch_without_clip_X_stages:
  "param (train_batch_without_clip_X T M cfg b st)
     = param (optimizer_E_step T (pred_E M) (optimizer_X_step T (pred_X M)
         (clip_grad_norm (pred_E M) (max_grad_norm cfg)
           (backward T (batch_loss M (generator st) b) (zero_grad (pred_E M) (zero_grad (pred_X M) st))))))"
  "opt_E (train_batch_without_clip_X T M cfg b st)
     = opt_E (optimizer_E_step T (pred_E M) (optimizer_X_step T (pred_X M)
         (clip_grad_norm (pred_E M) (max_grad_norm cfg)
           (backward T (batch_loss M (generator st) b) (zero_grad (pred_E M) (zero_grad (pred_X M) st))))))"
  by (simp_all add: train_batch_without_clip_X_def Let_def split: prod.splits)


lemma X_input:
  assumes "set pX \<inter> set pE = {}"
  shows "map (\<lambda>p. (param (clip_grad_norm pE c (clip_grad_norm pX c
                        (backward T L (zero_grad pE (zero_grad pX st))))) p,
                   grad (clip_grad_norm pE c (clip_grad_norm pX c
                        (backward T L (zero_grad pE (zero_grad pX st))))) p)) pX
       = map (\<lambda>p. (param st p,
                    autograd T L (param st) p * clip_coef c (map (autograd T L (param st)) pX))) pX"
    and "map (\<lambda>p. (param (clip_grad_norm pX c
                        (backward T L (zero_grad pE (zero_grad pX st)))) p,
                   grad (clip_grad_norm pX c
                        (backward T L (zero_grad pE (zero_grad pX st)))) p)) pX
       = map (\<lambda>p. (param st p,
                    autograd T L (param st) p * clip_coef c (map (autograd T L (param st)) pX))) pX"
proof -
  let ?s3 = "backward T L (zero_grad pE (zero_grad pX st))"
  let ?G = "autograd T L (param st)"
  have g: "grad (clip_grad_norm pX c ?s3) p = ?G p * clip_coef c (map ?G pX)" if "p \<in> set pX" for p
    by (rule clip_grad_norm_in [OF _ that]) (simp add: grad_after_backward)
  have g': "grad (clip_grad_norm pE c (clip_grad_norm pX c ?s3)) p = ?G p * clip_coef c (map ?G pX)"
    if "p \<in> set pX" for p
  proof -
    from that assms have "p \<notin> set pE" by auto
    then show ?thesis by (simp add: clip_grad_norm_out g [OF that])
  qed
  show "map (\<lambda>p. (param (clip_grad_norm pE c (clip_grad_norm pX c ?s3)) p,
                   grad (clip_grad_norm pE c (clip_grad_norm pX c ?s3)) p)) pX
       = map (\<lambda>p. (param st p, ?G p * clip_coef c (map ?G pX))) pX"
    by (rule map_cong [OF refl]) (simp add: g' clip_grad_norm_fields param_after_backward)
  show "map (\<lambda>p. (param (clip_grad_norm pX c ?s3) p, grad (clip_grad_norm pX c ?s3) p)) pX
       = map (\<lambda>p. (param st p, ?G p * clip_coef c (map ?G pX))) pX"
    by (rule map_cong [OF refl]) (simp add: g clip_grad_norm_fields param_after_backward)
qed

lemma E_input:
  assumes "set pX \<inter> set pE = {}"
  shows "map (\<lambda>p. (param (optimizer_X_step T pX (clip_grad_norm pE c (clip_grad_norm pX c
                        (backward T L (zero_grad pE (zero_grad pX st)))))) p,
                   grad (optimizer_X_step T pX (clip_grad_norm pE c (clip_grad_norm pX c
                        (backward T L (zero_grad pE (zero_grad pX st)))))) p)) pE
       = map (\<lambda>p. (param st p,
                    autograd T L (param st) p * clip_coef c (map (autograd T L (param st)) pE))) pE"
    and "map (\<lambda>p. (param (optimizer_X_step T pX (clip_grad_norm pE c
                        (backward T L (zero_grad pE (zero_grad pX st))))) p,
                   grad (optimizer_X_step T pX (clip_grad_norm pE c
                        (backward T L (zero_grad pE (zero_grad pX st))))) p)) pE
       = map (\<lambda>p. (param st p,
                    autograd T L (param st) p * clip_coef c (map (autograd T L (param st)) pE))) pE"
proof -
  let ?s3 = "backward T L (zero_grad pE (zero_grad pX st))"
  let ?G = "autograd T L (param st)"
  have out: "p \<notin> set pX" if "p \<in> set pE" for p
    using that assms by auto
  have g: "grad (clip_grad_norm pE c ?s3) p = ?G p * clip_coef c (map ?G pE)" if "p \<in> set pE" for p
    by (rule clip_grad_norm_in [OF _ that]) (simp add: grad_after_backward)
  have g': "grad (clip_grad_norm pE c (clip_grad_norm pX c ?s3)) p = ?G p * clip_coef c (map ?G pE)"
    if "p \<in> set pE" for p
    by (rule clip_grad_norm_in [OF _ that])
       (simp add: clip_grad_norm_out out grad_after_backward)
  show "map (\<lambda>p. (param (optimizer_X_step T pX (clip_grad_norm pE c (clip_grad_norm pX c ?s3))) p,
                   grad (optimizer_X_step T pX (clip_grad_norm pE c (clip_grad_norm pX c ?s3))) p)) pE
       = map (\<lambda>p. (param st p, ?G p * clip_coef c (map ?G pE))) pE"
    by (rule map_cong [OF refl])
       (simp add: g' optimizer_X_step_fields step_values_other out clip_grad_norm_fields
          param_after_backward)
  show "map (\<lambda>p. (param (optimizer_X_step T pX (clip_grad_norm pE c ?s3)) p,
                   grad (optimizer_X_step T pX (clip_grad_norm pE c ?s3)) p)) pE
       = map (\<lambda>p. (param st p, ?G p * clip_coef c (map ?G pE))) pE"
    by (rule map_cong [OF refl])
       (simp add: g optimizer_X_step_fields step_values_other out clip_grad_norm_fields
          param_after_backward)
qed


text \<open>
  Claim C3. For each mini-batch, one backward pass over \<open>loss_X + loss_E\<close> gives the
  gradients of both parameter sets; then the gradients of each stream are clipped to the
  configured maximum norm independently, by the norm of that stream's own gradients only,
  and both are clipped before either optimizer steps. With parameter sets that share no
  parameter: each optimizer receives the gradient of the combined loss on its own
  parameters, multiplied by the clipping factor of these gradients alone
  (\<open>stream_step_input\<close>); the update of stream X (its new parameter values and the new state
  of its optimizer) is the same as in the body without the clipping of E, whatever the
  norm of the gradients of E is, and the update of stream E is the same as in the body
  without the clipping of X.
\<close>

theorem C3_clip_independence:
  assumes "set (pred_X M) \<inter> set (pred_E M) = {}"
  shows "param (train_batch T M cfg b st)
           = step_values (pred_E M)
               (fst (adamw T (opt_E st) (stream_step_input T M cfg b st (pred_E M))))
               (step_values (pred_X M)
                  (fst (adamw T (opt_X st) (stream_step_input T M cfg b st (pred_X M))))
                  (param st))
       \<and> opt_X (train_batch T M cfg b st)
           = snd (adamw T (opt_X st) (stream_step_input T M cfg b st (pred_X M)))
       \<and> opt_E (train_batch T M cfg b st)
           = snd (adamw T (opt_E st) (stream_step_input T M cfg b st (pred_E M)))
       \<and> (\<forall>p\<in>set (pred_X M).
             param (train_batch T M cfg b st) p = param (train_batch_without_clip_E T M cfg b st) p)
       \<and> opt_X (train_batch T M cfg b st) = opt_X (train_batch_without_clip_E T M cfg b st)
       \<and> (\<forall>p\<in>set (pred_E M).
             param (train_batch T M cfg b st) p = param (train_batch_without_clip_X T M cfg b st) p)
       \<and> opt_E (train_batch T M cfg b st) = opt_E (train_batch_without_clip_X T M cfg b st)"
proof -
  note d = assms
  let ?s3 = "backward T (batch_loss M (generator st) b)
               (zero_grad (pred_E M) (zero_grad (pred_X M) st))"
  let ?c = "max_grad_norm cfg"
  let ?inX = "stream_step_input T M cfg b st (pred_X M)"
  let ?inE = "stream_step_input T M cfg b st (pred_E M)"
  let ?A = "step_values (pred_X M) (fst (adamw T (opt_X st) ?inX)) (param st)"
  have outE: "p \<notin> set (pred_E M)" if "p \<in> set (pred_X M)" for p
    using that d by auto
  have outX: "p \<notin> set (pred_X M)" if "p \<in> set (pred_E M)" for p
    using that d by auto
  have A_at_E: "?A p = param st p" if "p \<in> set (pred_E M)" for p
    by (simp add: step_values_other outX [OF that])
  \<comment> \<open>the body as it is\<close>
  let ?s5 = "clip_grad_norm (pred_E M) ?c (clip_grad_norm (pred_X M) ?c ?s3)"
  let ?s6 = "optimizer_X_step T (pred_X M) ?s5"
  have x5: "map (\<lambda>p. (param ?s5 p, grad ?s5 p)) (pred_X M) = ?inX"
    unfolding stream_step_input_def combined_grad_def by (rule X_input(1) [OF d])
  have e6: "map (\<lambda>p. (param ?s6 p, grad ?s6 p)) (pred_E M) = ?inE"
    unfolding stream_step_input_def combined_grad_def by (rule E_input(1) [OF d])
  have o5: "opt_X ?s5 = opt_X st" "opt_E ?s5 = opt_E st" "param ?s5 = param st"
    by (simp_all add: clip_grad_norm_fields opt_after_backward param_after_backward)
  have x5': "map (\<lambda>p. (param st p, grad ?s5 p)) (pred_X M) = ?inX"
    using x5 by (simp only: o5)
  have p6: "param ?s6 = ?A"
    by (simp only: optimizer_X_step_fields(1) x5' o5)
  have ox6: "opt_X ?s6 = snd (adamw T (opt_X st) ?inX)"
    by (simp only: optimizer_X_step_fields(2) x5' o5)
  have oe6: "opt_E ?s6 = opt_E st"
    by (simp only: optimizer_X_step_fields(3) o5)
  have e6': "map (\<lambda>p. (?A p, grad ?s6 p)) (pred_E M) = ?inE"
    using e6 by (simp only: p6)
  have P: "param (train_batch T M cfg b st)
             = step_values (pred_E M) (fst (adamw T (opt_E st) ?inE)) ?A"
    by (simp only: train_batch_stages(1) optimizer_E_step_fields(1) e6' oe6 p6)
  have OX: "opt_X (train_batch T M cfg b st) = snd (adamw T (opt_X st) ?inX)"
    by (simp only: train_batch_stages(2) optimizer_E_step_fields(3) ox6)
  have OE: "opt_E (train_batch T M cfg b st) = snd (adamw T (opt_E st) ?inE)"
    by (simp only: train_batch_stages(3) optimizer_E_step_fields(2) e6' oe6 p6)
  \<comment> \<open>without the clipping of E\<close>
  let ?t4 = "clip_grad_norm (pred_X M) ?c ?s3"
  let ?t6 = "optimizer_X_step T (pred_X M) ?t4"
  have x4: "map (\<lambda>p. (param ?t4 p, grad ?t4 p)) (pred_X M) = ?inX"
    unfolding stream_step_input_def combined_grad_def by (rule X_input(2) [OF d])
  have o4: "opt_X ?t4 = opt_X st" "param ?t4 = param st"
    by (simp_all add: clip_grad_norm_fields opt_after_backward param_after_backward)
  have x4': "map (\<lambda>p. (param st p, grad ?t4 p)) (pred_X M) = ?inX"
    using x4 by (simp only: o4)
  have pt6: "param ?t6 = ?A"
    by (simp only: optimizer_X_step_fields(1) x4' o4)
  have oxt6: "opt_X ?t6 = snd (adamw T (opt_X st) ?inX)"
    by (simp only: optimizer_X_step_fields(2) x4' o4)
  have OX': "opt_X (train_batch_without_clip_E T M cfg b st) = snd (adamw T (opt_X st) ?inX)"
    by (simp only: train_batch_without_clip_E_stages(2) optimizer_E_step_fields(3) oxt6)
  have PX': "param (train_batch_without_clip_E T M cfg b st) p = ?A p"
    if "p \<in> set (pred_X M)" for p
    by (simp only: train_batch_without_clip_E_stages(1) optimizer_E_step_fields(1) pt6
          step_values_other [OF outE [OF that]])
  have QX: "param (train_batch T M cfg b st) p = param (train_batch_without_clip_E T M cfg b st) p"
    if "p \<in> set (pred_X M)" for p
    by (simp only: P PX' [OF that] step_values_other [OF outE [OF that]])
  \<comment> \<open>without the clipping of X\<close>
  let ?u5 = "clip_grad_norm (pred_E M) ?c ?s3"
  let ?u6 = "optimizer_X_step T (pred_X M) ?u5"
  have eu6: "map (\<lambda>p. (param ?u6 p, grad ?u6 p)) (pred_E M) = ?inE"
    unfolding stream_step_input_def combined_grad_def by (rule E_input(2) [OF d])
  have ou5: "opt_E ?u5 = opt_E st" "param ?u5 = param st"
    by (simp_all add: clip_grad_norm_fields opt_after_backward param_after_backward)
  have oeu6: "opt_E ?u6 = opt_E st"
    by (simp only: optimizer_X_step_fields(3) ou5)
  have pu6: "param ?u6 p = param st p" if "p \<in> set (pred_E M)" for p
    by (simp only: optimizer_X_step_fields(1) ou5 step_values_other [OF outX [OF that]])
  have OE': "opt_E (train_batch_without_clip_X T M cfg b st) = snd (adamw T (opt_E st) ?inE)"
    by (simp only: train_batch_without_clip_X_stages(2) optimizer_E_step_fields(2) eu6 oeu6)
  have QE: "param (train_batch T M cfg b st) p = param (train_batch_without_clip_X T M cfg b st) p"
    if "p \<in> set (pred_E M)" for p
  proof -
    have "param (train_batch_without_clip_X T M cfg b st) p
            = step_values (pred_E M) (fst (adamw T (opt_E st) ?inE)) (param ?u6) p"
      by (simp only: train_batch_without_clip_X_stages(1) optimizer_E_step_fields(1) eu6 oeu6)
    also have "\<dots> = step_values (pred_E M) (fst (adamw T (opt_E st) ?inE)) ?A p"
      by (rule step_values_cong_at) (simp only: pu6 [OF that] A_at_E [OF that])
    finally show ?thesis
      by (simp only: P)
  qed
  from P OX OE QX QE OX' OE' show ?thesis
    by simp
qed

lemma total_norm_single: "total_norm [x] = \<bar>x\<bar>"
  by (simp add: total_norm_def)

lemma linear_preds: "pred_X linear_model = [0]" "pred_E linear_model = [Suc 0]"
  by (simp_all add: linear_model_def)

lemma start_state_fields:
  "param start_state p = 0" "opt_X start_state = 0" "opt_E start_state = 0"
  by (simp_all add: start_state_def)

lemma small_config_max_grad_norm: "max_grad_norm small_config = 5"
  by (simp add: small_config_def)

lemma linear_grads:
  "combined_grad flip_nn linear_model b start_state 0 = 1"
  "combined_grad flip_nn linear_model b start_state (Suc 0) = 100"
  by (simp_all add: combined_grad_def flip_nn_def linear_model_def batch_loss_def start_state_def)

lemma linear_clip_coefs:
  "clip_coef (max_grad_norm small_config)
     (map (combined_grad flip_nn linear_model b start_state) (pred_X linear_model)) = 1"
  "clip_coef (max_grad_norm small_config)
     (map (combined_grad flip_nn linear_model b start_state) (pred_E linear_model))
     = 5000000 / 100000001"
  by (simp_all add: linear_preds linear_grads clip_coef_def total_norm_single
        small_config_max_grad_norm)

lemma linear_inputs:
  "stream_step_input flip_nn linear_model small_config b start_state (pred_X linear_model)
     = [(0, 1)]"
  "stream_step_input flip_nn linear_model small_config b start_state (pred_E linear_model)
     = [(0, 500000000 / 100000001)]"
  unfolding stream_step_input_def linear_clip_coefs
  by (simp_all add: linear_preds linear_grads start_state_fields)

lemma linear_inputs_listed:
  "stream_step_input flip_nn linear_model small_config b start_state [0] = [(0, 1)]"
  "stream_step_input flip_nn linear_model small_config b start_state [Suc 0]
     = [(0, 500000000 / 100000001)]"
  using linear_inputs [of b] by (simp_all add: linear_preds)

lemma start_state_param: "param start_state = (\<lambda>p. 0)"
  by (simp add: start_state_def)

lemma flip_nn_adamw: "adamw flip_nn k vgs = (map (\<lambda>vg. fst vg - snd vg / 10) vgs, Suc k)"
  by (simp add: flip_nn_def)

theorem C3_clip_independence_witness:
  "set (pred_X linear_model) \<inter> set (pred_E linear_model) = {}
   \<and> param (train_batch flip_nn linear_model small_config [(0, 1)] start_state) 0 = - 1 / 10
   \<and> param (train_batch_without_clip_E flip_nn linear_model small_config [(0, 1)] start_state) 0
       = - 1 / 10
   \<and> param (train_batch flip_nn linear_model small_config [(0, 1)] start_state) 1
       = - 50000000 / 100000001
   \<and> param (train_batch_without_clip_X flip_nn linear_model small_config [(0, 1)] start_state) 1
       = - 50000000 / 100000001"
proof -
  have d: "set (pred_X linear_model) \<inter> set (pred_E linear_model) = {}"
    by (simp add: linear_preds)
  note t = C3_clip_independence [OF d, of flip_nn small_config "[(0, 1)]" start_state]
  have P: "param (train_batch flip_nn linear_model small_config [(0, 1)] start_state)
             = step_values [Suc 0] [- 50000000 / 100000001] (step_values [0] [- 1 / 10] (\<lambda>p. 0))"
    using t [THEN conjunct1] by (simp add: linear_inputs_listed flip_nn_adamw start_state_fields start_state_param
                  linear_preds)
  have p0: "param (train_batch flip_nn linear_model small_config [(0, 1)] start_state) 0 = - 1 / 10"
    and p1: "param (train_batch flip_nn linear_model small_config [(0, 1)] start_state) 1
               = - 50000000 / 100000001"
    unfolding P by (simp_all add: step_values_def)
  from t [THEN conjunct2, THEN conjunct2, THEN conjunct2, THEN conjunct1]
  have "param (train_batch flip_nn linear_model small_config [(0, 1)] start_state) 0
      = param (train_batch_without_clip_E flip_nn linear_model small_config [(0, 1)] start_state) 0"
    by (simp add: linear_preds)
  moreover
  from t [THEN conjunct2, THEN conjunct2, THEN conjunct2, THEN conjunct2, THEN conjunct2,
          THEN conjunct1]
  have "param (train_batch flip_nn linear_model small_config [(0, 1)] start_state) 1
      = param (train_batch_without_clip_X flip_nn linear_model small_config [(0, 1)] start_state) 1"
    by (simp add: linear_preds)
  ultimately show ?thesis
    using d p0 p1 by simp
qed

section \<open>Subgraph sampling and the reseeded generator\<close>

lemma Evaluator_init_amazon:
  assumes "name \<in> set [''amazon_photo'', ''amazon_computer'']"
  shows "Evaluator_init R name g Y rng
       = (case preprocess_g R \<lparr>data_name = name, edge_limit = min (num_edges g) 20000\<rparr> g Y True
                (manual_seed R 0) of
            Inl e \<Rightarrow> Inl e
          | Inr r \<Rightarrow> Inr (\<lparr>data_name = name, edge_limit = min (num_edges g) 20000\<rparr>, r))"
  using assms by (simp add: Evaluator_init_def Let_def)

lemma set_to_bidirected:
  "set (edges (to_bidirected g)) = set (edges g) \<union> (\<lambda>e. (snd e, fst e)) ` set (edges g)"
  by (simp add: to_bidirected_def)

lemma length_to_bidirected: "length (edges (to_bidirected g)) \<le> 2 * length (edges g)"
proof -
  have "length (remdups (edges g @ map (\<lambda>e. (snd e, fst e)) (edges g)))
          \<le> length (edges g @ map (\<lambda>e. (snd e, fst e)) (edges g))"
    by (rule length_remdups_leq)
  then show ?thesis by (simp add: to_bidirected_def)
qed

lemma sym_closure:
  "((u, v) \<in> S \<union> (\<lambda>e. (snd e, fst e)) ` S) = ((v, u) \<in> S \<union> (\<lambda>e. (snd e, fst e)) ` S)"
  by force

lemma symmetric_to_bidirected:
  "(u, v) \<in> set (edges (to_bidirected g)) \<longleftrightarrow> (v, u) \<in> set (edges (to_bidirected g))"
  unfolding set_to_bidirected by (rule sym_closure)

lemma set_triu_nonzero:
  "set (triu_nonzero g) = {(i, j). i < j \<and> j < num_nodes g \<and> (i, j) \<in> set (edges g)}"
  by (force simp: triu_nonzero_def)

lemma sample_subg_edges:
  "edges (fst (sample_subg R self g rng))
     = remdups (map ((!) (triu_nonzero g))
                  (take (edge_limit self div 2) (fst (randperm R rng (length (triu_nonzero g)))))
                @ map (\<lambda>e. (snd e, fst e))
                    (map ((!) (triu_nonzero g))
                       (take (edge_limit self div 2)
                          (fst (randperm R rng (length (triu_nonzero g)))))))"
  by (simp add: sample_subg_def to_bidirected_def Let_def split: prod.splits)

lemma sample_subg_props:
  assumes "randperm_ok R"
  shows "length (edges (fst (sample_subg R self g rng))) \<le> edge_limit self"
    and "(u, v) \<in> set (edges (fst (sample_subg R self g rng)))
           \<longleftrightarrow> (v, u) \<in> set (edges (fst (sample_subg R self g rng)))"
    and "set (edges (fst (sample_subg R self g rng)))
           \<subseteq> set (edges g) \<union> (\<lambda>e. (snd e, fst e)) ` set (edges g)"
    and "num_nodes (fst (sample_subg R self g rng)) = num_nodes g"
proof -
  let ?T = "triu_nonzero g"
  let ?perm = "fst (randperm R rng (length ?T))"
  let ?sel = "map ((!) ?T) (take (edge_limit self div 2) ?perm)"
  have e: "edges (fst (sample_subg R self g rng)) = remdups (?sel @ map (\<lambda>e. (snd e, fst e)) ?sel)"
    by (rule sample_subg_edges)
  have "length (remdups (?sel @ map (\<lambda>e. (snd e, fst e)) ?sel))
          \<le> length (?sel @ map (\<lambda>e. (snd e, fst e)) ?sel)"
    by (rule length_remdups_leq)
  also have "\<dots> \<le> 2 * (edge_limit self div 2)"
    by simp
  also have "\<dots> \<le> edge_limit self"
    by simp
  finally show "length (edges (fst (sample_subg R self g rng))) \<le> edge_limit self"
    by (simp only: e)
  show "(u, v) \<in> set (edges (fst (sample_subg R self g rng)))
           \<longleftrightarrow> (v, u) \<in> set (edges (fst (sample_subg R self g rng)))"
  proof -
    have "set (edges (fst (sample_subg R self g rng)))
            = set ?sel \<union> (\<lambda>e. (snd e, fst e)) ` set ?sel"
      by (simp only: e set_remdups set_append set_map)
    then show ?thesis
      using sym_closure [of u v "set ?sel"] by simp
  qed
  have "set ?perm = {0..<length ?T}"
    using assms by (simp add: randperm_ok_def)
  then have "set (take (edge_limit self div 2) ?perm) \<subseteq> {0..<length ?T}"
    using set_take_subset by fastforce
  then have "set ?sel \<subseteq> set ?T"
    by auto
  also have "\<dots> \<subseteq> set (edges g)"
    by (auto simp: set_triu_nonzero)
  finally show "set (edges (fst (sample_subg R self g rng)))
           \<subseteq> set (edges g) \<union> (\<lambda>e. (snd e, fst e)) ` set (edges g)"
    unfolding e by auto
  show "num_nodes (fst (sample_subg R self g rng)) = num_nodes g"
    by (simp add: sample_subg_def to_bidirected_def Let_def split: prod.splits)
qed


lemma store_masks_edges:
  "store_masks g r = Inr (g', rng') \<Longrightarrow> edges g' = edges g \<and> num_nodes g' = num_nodes g"
  by (auto simp: store_masks_def split: sum.splits prod.splits)

lemma add_mask_edges:
  assumes "add_mask R self g Y rng = Inr (g', rng')"
  shows "edges g' = edges g \<and> num_nodes g' = num_nodes g"
  using assms
  by (auto simp: add_mask_def add_mask_cora_def add_mask_citeseer_def add_mask_benchmark_def
           split: if_splits dest: store_masks_edges)

lemma preprocess_g_subg:
  assumes "preprocess_g R self g Y flag rng = Inr r"
  shows "edges (pp_dgl_g r) = edges g"
    and "edge_limit self < num_edges g
           \<Longrightarrow> \<exists>rng'. pp_dgl_subg r = fst (sample_subg R self (pp_dgl_g r) rng')"
    and "num_edges g \<le> edge_limit self \<Longrightarrow> pp_dgl_subg r = pp_dgl_g r"
proof -
  obtain g' rng' where m:
    "(if flag then add_mask R self g Y rng else Inr (g, rng)) = Inr (g', rng')"
    using assms by (auto simp: preprocess_g_def split: sum.splits)
  have eg: "edges g' = edges g"
    using m add_mask_edges [of R self g Y rng g' rng'] by (auto split: if_splits)
  have r: "pp_dgl_g r = g'"
    and sub: "pp_dgl_subg r
                = fst (if edge_limit self < num_edges g' then sample_subg R self g' rng'
                       else (g', rng'))"
    using assms m by (auto simp: preprocess_g_def split: sum.splits prod.splits if_splits)
  show "edges (pp_dgl_g r) = edges g"
    by (simp add: r eg)
  show "\<exists>rng'. pp_dgl_subg r = fst (sample_subg R self (pp_dgl_g r) rng')"
    if "edge_limit self < num_edges g"
    using that by (auto simp: sub r eg num_edges_def)
  show "pp_dgl_subg r = pp_dgl_g r" if "num_edges g \<le> edge_limit self"
    using that by (simp add: sub r eg num_edges_def)
qed

lemma Evaluator_init_edge_limit:
  "Evaluator_init R name g Y rng = Inr (s, r) \<Longrightarrow> edge_limit s = min (num_edges g) 20000"
  by (auto simp: Evaluator_init_def Let_def split: sum.splits)

lemma triu_nonzero_two_pairs: "triu_nonzero two_pairs = [(0, Suc 0), (2, 3)]"
  by code_simp

lemma sample_two_pairs:
  "sample_subg flip_torch \<lparr>data_name = ''cora'', edge_limit = 2\<rparr> two_pairs (Suc 0)
     = (\<lparr>num_nodes = 4, edges = [(2, 3), (3, 2)], ndata = Map.empty\<rparr>, 2)"
proof -
  have nn: "num_nodes two_pairs = 4"
    by (simp add: two_pairs_def)
  have p: "randperm flip_torch (Suc 0) (Suc (Suc 0)) = ([Suc 0, 0], 2)"
    by (simp add: flip_torch_def)
  show ?thesis
    by (simp add: sample_subg_def triu_nonzero_two_pairs p to_bidirected_def nn Let_def)
qed

lemma preprocess_two_pairs:
  "preprocess_g flip_torch \<lparr>data_name = ''cora'', edge_limit = 2\<rparr> two_pairs two_pairs_Y False 1
     = Inr \<lparr>pp_dgl_g = two_pairs,
            pp_dgl_subg = \<lparr>num_nodes = 4, edges = [(2, 3), (3, 2)], ndata = Map.empty\<rparr>,
            pp_linkx_A = Fin 1, pp_rng = 2\<rparr>"
proof -
  have h: "linkx_homophily two_pairs (map argmax (rows two_pairs_Y)) = Inr (Fin 1)"
    by code_simp
  have n: "num_edges two_pairs = 4" "size1 two_pairs_Y = 2"
    by (simp_all add: num_edges_def two_pairs_def two_pairs_Y_def)
  show ?thesis
    by (simp add: preprocess_g_def h n sample_two_pairs)
qed


lemma masks_amazon_two_pairs:
  "(case Evaluator_init flip_torch ''amazon_photo'' two_pairs two_pairs_Y 5 of
      Inl e \<Rightarrow> None
    | Inr sr \<Rightarrow> Some (ndata (pp_dgl_g (snd sr)) ''train_mask'',
                      ndata (pp_dgl_g (snd sr)) ''val_mask'',
                      ndata (pp_dgl_g (snd sr)) ''test_mask'',
                      pp_rng (snd sr)))
     = Some (Some [True, True, True, True], Some [False, False, False, False],
             Some [False, False, False, False], 2)"
  by code_simp


text \<open>
  Claim C9. For the dataset identifiers \<open>amazon_photo\<close> and \<open>amazon_computer\<close>, the
  constructor of an \<open>Evaluator\<close> reseeds the global random generator to the fixed value 0
  before it builds the split masks: the construction is \<open>preprocess_g\<close> with masks, started
  from \<open>manual_seed 0\<close>, so two constructions on the same graph and label tensor give the
  same result, with the same train, val and test masks, whatever the state of the
  generator was before.
\<close>

theorem C9_reseed:
  assumes "name \<in> set [''amazon_photo'', ''amazon_computer'']"
  shows "Evaluator_init R name g Y rng = Evaluator_init R name g Y rng'
       \<and> Evaluator_init R name g Y rng
           = (case preprocess_g R \<lparr>data_name = name, edge_limit = min (num_edges g) 20000\<rparr>
                     g Y True (manual_seed R 0) of
                Inl e \<Rightarrow> Inl e
              | Inr r \<Rightarrow> Inr (\<lparr>data_name = name, edge_limit = min (num_edges g) 20000\<rparr>, r))"
  by (simp only: Evaluator_init_amazon [OF assms])

theorem C9_reseed_witness:
  "Evaluator_init flip_torch ''amazon_photo'' two_pairs two_pairs_Y 5
     = Evaluator_init flip_torch ''amazon_photo'' two_pairs two_pairs_Y 8
   \<and> (case Evaluator_init flip_torch ''amazon_photo'' two_pairs two_pairs_Y 8 of
         Inl e \<Rightarrow> None
       | Inr sr \<Rightarrow> Some (ndata (pp_dgl_g (snd sr)) ''train_mask'',
                         ndata (pp_dgl_g (snd sr)) ''val_mask'',
                         ndata (pp_dgl_g (snd sr)) ''test_mask'',
                         pp_rng (snd sr)))
       = Some (Some [True, True, True, True], Some [False, False, False, False],
               Some [False, False, False, False], 2)"
proof -
  have n: "''amazon_photo'' \<in> set [''amazon_photo'', ''amazon_computer'']"
    by simp
  from C9_reseed [OF n, of flip_torch two_pairs two_pairs_Y 5 8]
  have e: "Evaluator_init flip_torch ''amazon_photo'' two_pairs two_pairs_Y 5
             = Evaluator_init flip_torch ''amazon_photo'' two_pairs two_pairs_Y 8"
    by (rule conjunct1)
  show ?thesis
    using masks_amazon_two_pairs by (simp only: e [symmetric] simp_thms)
qed

text \<open>
  Claim C5. For every graph whose edge count exceeds the cap \<open>edge_limit\<close> (which the
  constructor sets to the minimum of the edge count of the real graph and 20000),
  \<open>preprocess_g\<close> samples a subgraph, and the sampled subgraph has at most \<open>edge_limit\<close>
  directed edge entries and is symmetric: the edge \<open>(u, v)\<close> is present if and only if
  the edge \<open>(v, u)\<close> is; a graph at or below the cap is used unsampled. The sampled
  subgraph has the nodes of the graph, and each of its edges is an edge of the graph or
  the reverse of one. The order of the edges that \<^verbatim>\<open>dgl.to_bidirected\<close> returns is not
  part of the statement.
\<close>

theorem C5_sample_subg:
  assumes "randperm_ok R"
  shows "length (edges (fst (sample_subg R self g rng))) \<le> edge_limit self
       \<and> (\<forall>u v. (u, v) \<in> set (edges (fst (sample_subg R self g rng)))
                 \<longleftrightarrow> (v, u) \<in> set (edges (fst (sample_subg R self g rng))))
       \<and> set (edges (fst (sample_subg R self g rng)))
            \<subseteq> set (edges g) \<union> (\<lambda>e. (snd e, fst e)) ` set (edges g)
       \<and> num_nodes (fst (sample_subg R self g rng)) = num_nodes g
       \<and> (\<forall>r. preprocess_g R self g Y flag rng = Inr r \<longrightarrow>
             edges (pp_dgl_g r) = edges g
             \<and> (edge_limit self < num_edges g \<longrightarrow>
                  (\<exists>rng'. pp_dgl_subg r = fst (sample_subg R self (pp_dgl_g r) rng'))
                  \<and> length (edges (pp_dgl_subg r)) \<le> edge_limit self
                  \<and> (\<forall>u v. (u, v) \<in> set (edges (pp_dgl_subg r))
                            \<longleftrightarrow> (v, u) \<in> set (edges (pp_dgl_subg r))))
             \<and> (num_edges g \<le> edge_limit self \<longrightarrow> pp_dgl_subg r = pp_dgl_g r))
       \<and> (\<forall>s r. Evaluator_init R name g Y rng = Inr (s, r) \<longrightarrow>
             edge_limit s = min (num_edges g) 20000)"
proof -
  have A: "length (edges (fst (sample_subg R self g rng))) \<le> edge_limit self"
    by (rule sample_subg_props(1) [OF assms])
  have B: "\<forall>u v. (u, v) \<in> set (edges (fst (sample_subg R self g rng)))
                 \<longleftrightarrow> (v, u) \<in> set (edges (fst (sample_subg R self g rng)))"
    by (intro allI) (rule sample_subg_props(2) [OF assms])
  have C: "set (edges (fst (sample_subg R self g rng)))
            \<subseteq> set (edges g) \<union> (\<lambda>e. (snd e, fst e)) ` set (edges g)"
    by (rule sample_subg_props(3) [OF assms])
  have D: "num_nodes (fst (sample_subg R self g rng)) = num_nodes g"
    by (rule sample_subg_props(4) [OF assms])
  have E: "edges (pp_dgl_g r) = edges g
             \<and> (edge_limit self < num_edges g \<longrightarrow>
                  (\<exists>rng'. pp_dgl_subg r = fst (sample_subg R self (pp_dgl_g r) rng'))
                  \<and> length (edges (pp_dgl_subg r)) \<le> edge_limit self
                  \<and> (\<forall>u v. (u, v) \<in> set (edges (pp_dgl_subg r))
                            \<longleftrightarrow> (v, u) \<in> set (edges (pp_dgl_subg r))))
             \<and> (num_edges g \<le> edge_limit self \<longrightarrow> pp_dgl_subg r = pp_dgl_g r)"
    if p: "preprocess_g R self g Y flag rng = Inr r" for r
  proof (intro conjI impI)
    show "edges (pp_dgl_g r) = edges g"
      by (rule preprocess_g_subg(1) [OF p])
    show "pp_dgl_subg r = pp_dgl_g r" if "num_edges g \<le> edge_limit self"
      by (rule preprocess_g_subg(3) [OF p that])
    assume lt: "edge_limit self < num_edges g"
    from preprocess_g_subg(2) [OF p lt]
    obtain rng' where s: "pp_dgl_subg r = fst (sample_subg R self (pp_dgl_g r) rng')"
      by blast
    then show "\<exists>rng'. pp_dgl_subg r = fst (sample_subg R self (pp_dgl_g r) rng')"
      by blast
    show "length (edges (pp_dgl_subg r)) \<le> edge_limit self"
      unfolding s by (rule sample_subg_props(1) [OF assms])
    show "\<forall>u v. (u, v) \<in> set (edges (pp_dgl_subg r)) \<longleftrightarrow> (v, u) \<in> set (edges (pp_dgl_subg r))"
      unfolding s by (intro allI) (rule sample_subg_props(2) [OF assms])
  qed
  have F: "\<forall>s r. Evaluator_init R name g Y rng = Inr (s, r) \<longrightarrow>
             edge_limit s = min (num_edges g) 20000"
    by (intro allI impI) (rule Evaluator_init_edge_limit)
  from A B C D E F show ?thesis
    by blast
qed


theorem C5_sample_subg_witness:
  "randperm_ok flip_torch
   \<and> preprocess_g flip_torch \<lparr>data_name = ''cora'', edge_limit = 2\<rparr> two_pairs two_pairs_Y
         False 1
       = Inr \<lparr>pp_dgl_g = two_pairs,
              pp_dgl_subg = \<lparr>num_nodes = 4, edges = [(2, 3), (3, 2)], ndata = Map.empty\<rparr>,
              pp_linkx_A = Fin 1, pp_rng = 2\<rparr>
   \<and> edge_limit \<lparr>data_name = ''cora'', edge_limit = 2\<rparr> < num_edges two_pairs
   \<and> length (edges (fst (sample_subg flip_torch \<lparr>data_name = ''cora'', edge_limit = 2\<rparr>
                             two_pairs 1))) \<le> 2
   \<and> length (edges \<lparr>num_nodes = 4, edges = [(2, 3), (3, 2)], ndata = Map.empty\<rparr>) \<le> 2"
proof -
  note t = C5_sample_subg [OF randperm_ok_flip_torch,
             of "\<lparr>data_name = ''cora'', edge_limit = 2\<rparr>" two_pairs 1 two_pairs_Y False
                "''cora''"]
  have p: "preprocess_g flip_torch \<lparr>data_name = ''cora'', edge_limit = 2\<rparr> two_pairs two_pairs_Y
             False 1
           = Inr \<lparr>pp_dgl_g = two_pairs,
                  pp_dgl_subg = \<lparr>num_nodes = 4, edges = [(2, 3), (3, 2)], ndata = Map.empty\<rparr>,
                  pp_linkx_A = Fin 1, pp_rng = 2\<rparr>"
    using preprocess_two_pairs by simp
  have lt: "edge_limit \<lparr>data_name = ''cora'', edge_limit = 2\<rparr> < num_edges two_pairs"
    by (simp add: num_edges_def two_pairs_def)
  from t [THEN conjunct1]
  have a: "length (edges (fst (sample_subg flip_torch \<lparr>data_name = ''cora'', edge_limit = 2\<rparr>
                             two_pairs 1))) \<le> 2"
    by simp
  from t [THEN conjunct2, THEN conjunct2, THEN conjunct2, THEN conjunct2, THEN conjunct1,
          THEN spec, THEN mp, OF p]
  have "length (edges (pp_dgl_subg
          \<lparr>pp_dgl_g = two_pairs,
           pp_dgl_subg = \<lparr>num_nodes = 4, edges = [(2, 3), (3, 2)], ndata = Map.empty\<rparr>,
           pp_linkx_A = Fin 1, pp_rng = (2::nat)\<rparr>)) \<le> 2"
    using lt by simp
  then have b: "length (edges \<lparr>num_nodes = 4, edges = [(2, 3), (3, 2)], ndata = Map.empty\<rparr>) \<le> 2"
    by simp
  from randperm_ok_flip_torch p lt a b show ?thesis
    by (simp only: simp_thms)
qed

end
